theory Spec2Isabelle
  imports Main
begin

section \<open>OpenStack instance metadata: pkg/cloudprovider/providers/openstack/metadata.go\<close>

text \<open>
  The file reads the identity and the network topology of the running instance from a
  config drive or, failing that, from the metadata server, and keeps the first result in
  two package variables. The embedding follows the Go text function by function. What the
  Go code gets from outside the package (files, mounts, HTTP, the JSON scanner) is an
  explicit argument: an environment of answers, and streams that hold a JSON value or the
  error of reading them. Log lines (glog) change nothing that is returned and are left out.
\<close>

subsection \<open>Errors, panics\<close>

datatype error =
    ErrBadMetadata
      \<comment> \<open>\<open>var ErrBadMetadata = errors.New("Invalid OpenStack metadata, got empty uuid")\<close>\<close>
  | ErrInvalid
      \<comment> \<open>\<open>os.ErrInvalid\<close>, what the methods of a nil \<open>*os.File\<close> return\<close>
  | ErrNotExist
      \<comment> \<open>an error on which \<open>os.IsNotExist\<close> holds\<close>
  | UnmarshalTypeError
      \<comment> \<open>encoding/json: a JSON value that does not fit the Go type it is stored in\<close>
  | StatusError string string
      \<comment> \<open>\<open>fmt.Errorf("Unexpected status code when reading metadata from %s: %s", url, resp.Status)\<close>\<close>
  | Failure string
      \<comment> \<open>any other error of a collaborator (I/O, syntax, exec, mount, transport), by its message\<close>

text \<open>A Go call either returns or panics; a panic is not an \<open>error\<close> value and
  is not caught by \<open>if err != nil\<close>.\<close>

datatype 'a go = Return 'a | Panic

subsection \<open>The data model\<close>

record Metadata =
  Uuid :: string
  Name :: string
  AvailabilityZone :: string

record Link =
  MAC :: string
  Type_Link :: string
  Id :: string

text \<open>\<open>Link *Link\<close> is a pointer; \<open>None\<close> is nil.\<close>

record Network =
  NetworkId :: string
  IP :: string
  LinkId :: string
  Link :: "Link option"
  Type_Network :: string

record Service =
  Type_Service :: string
  Address :: string

record Networkdata =
  Links :: "Link list"
  Networks :: "Network list"
  Services :: "Service list"

text \<open>The zero values that \<open>var metadata Metadata\<close> and \<open>var networkdata Networkdata\<close>
  start from, and that a slice element starts from.\<close>

definition zero_Metadata :: Metadata where
  "zero_Metadata = \<lparr>Uuid = [], Name = [], AvailabilityZone = []\<rparr>"

definition zero_Link :: Link where
  "zero_Link = \<lparr>MAC = [], Type_Link = [], Id = []\<rparr>"

definition zero_Network :: Network where
  "zero_Network = \<lparr>NetworkId = [], IP = [], LinkId = [], Link = None, Type_Network = []\<rparr>"

definition zero_Service :: Service where
  "zero_Service = \<lparr>Type_Service = [], Address = []\<rparr>"

definition zero_Networkdata :: Networkdata where
  "zero_Networkdata = \<lparr>Links = [], Networks = [], Services = []\<rparr>"

subsection \<open>JSON documents and readers\<close>

text \<open>
  A document is the JSON value it denotes; object members keep their order and their
  duplicates. Strings are byte strings (UTF-8), as Go's are. The text of a number is kept
  as it is written.
\<close>

datatype json =
    JNull
  | JBool bool
  | JNumber string
  | JString string
  | JArray "json list"
  | JObject "(string \<times> json) list"

text \<open>What a decoder finds in a stream: the next JSON value, or the error of reading or
  scanning for it (an I/O error, \<open>io.EOF\<close> on an empty stream, a syntax error).\<close>

type_synonym stream = "error + json"

text \<open>
  The body of an HTTP response. \<open>get\<close> closes it before its caller reads it, so what a
  read returns after \<open>Close\<close> is part of the response: \<open>after_close\<close>. (The bodies of
  net/http's own transport answer every such read with an error.)
\<close>

record body =
  closed :: bool
  unread :: stream
  after_close :: stream

definition Close :: "body \<Rightarrow> body" where
  "Close b = b\<lparr>closed := True\<rparr>"

text \<open>
  The three \<open>io.Reader\<close> values that reach the parsers: the nil interface (\<open>get\<close> returns
  it with an error), an \<open>*os.File\<close>, which may be the nil pointer (\<open>f2 = nil\<close>), and a
  response body.
\<close>

datatype reader =
    NilInterface
  | OsFile "stream option"
  | RespBody body

text \<open>
  \<open>json.NewDecoder(r).Decode(&v)\<close> calls \<open>r.Read\<close> until it has one JSON value. On the nil
  interface the call is a nil dereference; a nil \<open>*os.File\<close> answers \<open>ErrInvalid\<close>.
\<close>

fun readValue :: "reader \<Rightarrow> stream go" where
  "readValue NilInterface = Panic"
| "readValue (OsFile None) = Return (Inl ErrInvalid)"
| "readValue (OsFile (Some s)) = Return s"
| "readValue (RespBody b) = Return (if closed b then after_close b else unread b)"

subsection \<open>encoding/json: storing a JSON value in a struct\<close>

text \<open>
  The library is not part of the package; this is its documented behaviour for the types
  used here. A member's key selects the struct field with that \<open>json:"..."\<close> tag,
  "preferring an exact match but also accepting a case-insensitive match"; the comparison
  is Unicode simple folding, under which an ASCII tag is matched by the other letter case
  and, for \<open>k\<close> and \<open>s\<close>, by the Kelvin sign (U+212A) and the long s (U+017F). Members that
  select no field are skipped. \<open>null\<close> leaves a string or a struct as it is and makes a
  slice nil. A value of the wrong kind is skipped, decoding goes on, and \<open>Decode\<close> returns
  the earliest such error at the end. An array is stored in a slice element by element,
  each starting from the zero value.
\<close>

definition toLower :: "char \<Rightarrow> char" where
  "toLower c =
     (case map_of (zip ''ABCDEFGHIJKLMNOPQRSTUVWXYZ'' ''abcdefghijklmnopqrstuvwxyz'') c of
        None \<Rightarrow> c
      | Some l \<Rightarrow> l)"

definition kelvin :: string where
  "kelvin = [CHR 0xE2, CHR 0x84, CHR 0xAA]"

definition smallLongEss :: string where
  "smallLongEss = [CHR 0xC5, CHR 0xBF]"

text \<open>\<open>equalFold tag key\<close>, for an ASCII tag; \<open>digit7\<close> is the top bit of a byte.\<close>

fun equalFold :: "string \<Rightarrow> string \<Rightarrow> bool" where
  "equalFold [] t = (t = [])"
| "equalFold (sb # s) [] = False"
| "equalFold (sb # s) (tb # t) =
     (if \<not> digit7 tb then toLower sb = toLower tb \<and> equalFold s t
      else if toLower sb = CHR ''k'' then take 3 (tb # t) = kelvin \<and> equalFold s (drop 2 t)
      else if toLower sb = CHR ''s'' then take 2 (tb # t) = smallLongEss \<and> equalFold s (drop 1 t)
      else False)"

definition findField :: "string list \<Rightarrow> string \<Rightarrow> string option" where
  "findField tags key =
     (if key \<in> set tags then Some key else find (\<lambda>tag. equalFold tag key) tags)"

definition saveError :: "error option \<Rightarrow> error option \<Rightarrow> error option" where
  "saveError saved err = (case saved of None \<Rightarrow> err | Some e \<Rightarrow> Some e)"

fun store_string :: "json \<Rightarrow> string \<Rightarrow> string \<times> error option" where
  "store_string (JString s) old = (s, None)"
| "store_string JNull old = (old, None)"
| "store_string _ old = (old, Some UnmarshalTypeError)"

text \<open>The members of an object, in order; \<open>store tag j v\<close> stores \<open>j\<close> in the field of
  \<open>v\<close> tagged \<open>tag\<close>.\<close>

fun object_members ::
  "string list \<Rightarrow> (string \<Rightarrow> json \<Rightarrow> 'a \<Rightarrow> 'a \<times> error option) \<Rightarrow>
   (string \<times> json) list \<Rightarrow> 'a \<times> error option \<Rightarrow> 'a \<times> error option" where
  "object_members tags store [] acc = acc"
| "object_members tags store ((key, j) # kvs) (v, saved) =
     (case findField tags key of
        None \<Rightarrow> object_members tags store kvs (v, saved)
      | Some tag \<Rightarrow>
          (case store tag j v of
             (v', err) \<Rightarrow> object_members tags store kvs (v', saveError saved err)))"

definition store_struct ::
  "string list \<Rightarrow> (string \<Rightarrow> json \<Rightarrow> 'a \<Rightarrow> 'a \<times> error option) \<Rightarrow>
   json \<Rightarrow> 'a \<Rightarrow> 'a \<times> error option" where
  "store_struct tags store j v =
     (case j of
        JObject kvs \<Rightarrow> object_members tags store kvs (v, None)
      | JNull \<Rightarrow> (v, None)
      | _ \<Rightarrow> (v, Some UnmarshalTypeError))"

definition store_slice ::
  "(json \<Rightarrow> 'a \<Rightarrow> 'a \<times> error option) \<Rightarrow> 'a \<Rightarrow> json \<Rightarrow> 'a list \<Rightarrow> 'a list \<times> error option" where
  "store_slice store_elem zero j old =
     (case j of
        JArray js \<Rightarrow>
          (map (\<lambda>e. fst (store_elem e zero)) js,
           foldl saveError None (map (\<lambda>e. snd (store_elem e zero)) js))
      | JNull \<Rightarrow> ([], None)
      | _ \<Rightarrow> (old, Some UnmarshalTypeError))"

text \<open>The result of \<open>Decode\<close>: the filled value, or the earliest error.\<close>

definition decoded :: "'a \<times> error option \<Rightarrow> error + 'a" where
  "decoded r = (case r of (v, None) \<Rightarrow> Inr v | (v, Some e) \<Rightarrow> Inl e)"

text \<open>The struct tags of \<open>Metadata\<close>.\<close>

definition Metadata_tags :: "string list" where
  "Metadata_tags = [''uuid'', ''name'', ''availability_zone'']"

definition store_Metadata :: "string \<Rightarrow> json \<Rightarrow> Metadata \<Rightarrow> Metadata \<times> error option" where
  "store_Metadata tag j m =
     (if tag = ''uuid'' then (case store_string j (Uuid m) of (s, e) \<Rightarrow> (m\<lparr>Uuid := s\<rparr>, e))
      else if tag = ''name'' then (case store_string j (Name m) of (s, e) \<Rightarrow> (m\<lparr>Name := s\<rparr>, e))
      else if tag = ''availability_zone'' then
        (case store_string j (AvailabilityZone m) of (s, e) \<Rightarrow> (m\<lparr>AvailabilityZone := s\<rparr>, e))
      else (m, None))"

definition Decode_Metadata :: "json \<Rightarrow> error + Metadata" where
  "Decode_Metadata j = decoded (store_struct Metadata_tags store_Metadata j zero_Metadata)"

subsection \<open>parseMetadata\<close>

text \<open>The pair is Go's \<open>(*Metadata, error)\<close>: \<open>None\<close> is nil on either side.\<close>

definition parseMetadata :: "reader \<Rightarrow> (Metadata option \<times> error option) go" where
  "parseMetadata r =
     (case readValue r of
        Panic \<Rightarrow> Panic
      | Return (Inl err) \<Rightarrow> Return (None, Some err)
      | Return (Inr j) \<Rightarrow>
          (case Decode_Metadata j of
             Inl err \<Rightarrow> Return (None, Some err)
           | Inr metadata \<Rightarrow>
               if Uuid metadata = [] then Return (None, Some ErrBadMetadata)
               else Return (Some metadata, None)))"

subsection \<open>parseNetworkdata\<close>

text \<open>The struct tags of \<open>Link\<close>, \<open>Network\<close>, \<open>Service\<close> and \<open>Networkdata\<close>. The field
  \<open>Link\<close> of \<open>Network\<close> is tagged \<open>json:"-"\<close>: no member is ever stored in it.\<close>

definition Link_tags :: "string list" where
  "Link_tags = [''ethernet_mac_address'', ''type'', ''id'']"

definition store_Link :: "string \<Rightarrow> json \<Rightarrow> Link \<Rightarrow> Link \<times> error option" where
  "store_Link tag j l =
     (if tag = ''ethernet_mac_address'' then (case store_string j (MAC l) of (s, e) \<Rightarrow> (l\<lparr>MAC := s\<rparr>, e))
      else if tag = ''type'' then (case store_string j (Type_Link l) of (s, e) \<Rightarrow> (l\<lparr>Type_Link := s\<rparr>, e))
      else if tag = ''id'' then (case store_string j (Id l) of (s, e) \<Rightarrow> (l\<lparr>Id := s\<rparr>, e))
      else (l, None))"

definition Network_tags :: "string list" where
  "Network_tags = [''network_id'', ''ip_address'', ''link'', ''type'']"

definition store_Network :: "string \<Rightarrow> json \<Rightarrow> Network \<Rightarrow> Network \<times> error option" where
  "store_Network tag j n =
     (if tag = ''network_id'' then (case store_string j (NetworkId n) of (s, e) \<Rightarrow> (n\<lparr>NetworkId := s\<rparr>, e))
      else if tag = ''ip_address'' then (case store_string j (IP n) of (s, e) \<Rightarrow> (n\<lparr>IP := s\<rparr>, e))
      else if tag = ''link'' then (case store_string j (LinkId n) of (s, e) \<Rightarrow> (n\<lparr>LinkId := s\<rparr>, e))
      else if tag = ''type'' then (case store_string j (Type_Network n) of (s, e) \<Rightarrow> (n\<lparr>Type_Network := s\<rparr>, e))
      else (n, None))"

definition Service_tags :: "string list" where
  "Service_tags = [''type'', ''address'']"

definition store_Service :: "string \<Rightarrow> json \<Rightarrow> Service \<Rightarrow> Service \<times> error option" where
  "store_Service tag j s =
     (if tag = ''type'' then (case store_string j (Type_Service s) of (x, e) \<Rightarrow> (s\<lparr>Type_Service := x\<rparr>, e))
      else if tag = ''address'' then (case store_string j (Address s) of (x, e) \<Rightarrow> (s\<lparr>Address := x\<rparr>, e))
      else (s, None))"

definition Networkdata_tags :: "string list" where
  "Networkdata_tags = [''links'', ''networks'', ''services'']"

definition store_Networkdata ::
  "string \<Rightarrow> json \<Rightarrow> Networkdata \<Rightarrow> Networkdata \<times> error option" where
  "store_Networkdata tag j nd =
     (if tag = ''links'' then
        (case store_slice (store_struct Link_tags store_Link) zero_Link j (Links nd) of
           (xs, e) \<Rightarrow> (nd\<lparr>Links := xs\<rparr>, e))
      else if tag = ''networks'' then
        (case store_slice (store_struct Network_tags store_Network) zero_Network j (Networks nd) of
           (xs, e) \<Rightarrow> (nd\<lparr>Networks := xs\<rparr>, e))
      else if tag = ''services'' then
        (case store_slice (store_struct Service_tags store_Service) zero_Service j (Services nd) of
           (xs, e) \<Rightarrow> (nd\<lparr>Services := xs\<rparr>, e))
      else (nd, None))"

definition Decode_Networkdata :: "json \<Rightarrow> error + Networkdata" where
  "Decode_Networkdata j =
     decoded (store_struct Networkdata_tags store_Networkdata j zero_Networkdata)"

text \<open>
  The inner loop, \<open>for _, link := range networkdata.Links\<close>, on the loop variable
  \<open>network\<close> of the outer loop: the first link with the id is stored in it, and \<open>break\<close>.
\<close>

fun range_Links :: "Link list \<Rightarrow> Network \<Rightarrow> Network" where
  "range_Links [] network = network"
| "range_Links (link # links) network =
     (if Id link = LinkId network then network\<lparr>Link := Some link\<rparr>
      else range_Links links network)"

text \<open>
  The outer loop, \<open>for _, network := range networkdata.Networks\<close>. In Go the loop variable
  \<open>network\<close> is a copy of the slice element, and the body assigns to that copy: nothing
  is written to \<open>networkdata\<close>. The state of the loop is the struct and the variable.
\<close>

fun range_Networks ::
  "Network list \<Rightarrow> Networkdata \<times> Network option \<Rightarrow> Networkdata \<times> Network option" where
  "range_Networks [] st = st"
| "range_Networks (elem # rest) (networkdata, network) =
     range_Networks rest (networkdata, Some (range_Links (Links networkdata) elem))"

definition parseNetworkdata :: "reader \<Rightarrow> (Networkdata option \<times> error option) go" where
  "parseNetworkdata r =
     (case readValue r of
        Panic \<Rightarrow> Panic
      | Return (Inl err) \<Rightarrow> Return (None, Some err)
      | Return (Inr j) \<Rightarrow>
          (case Decode_Networkdata j of
             Inl err \<Rightarrow> Return (None, Some err)
           | Inr networkdata \<Rightarrow>
               Return (Some (fst (range_Networks (Networks networkdata) (networkdata, None))),
                       None)))"

subsection \<open>parseFullMetadata\<close>

text \<open>Go's \<open>(*Metadata, *Networkdata, error)\<close>.\<close>

type_synonym result = "Metadata option \<times> Networkdata option \<times> error option"

definition parseFullMetadata :: "reader \<Rightarrow> reader \<Rightarrow> result go" where
  "parseFullMetadata mdReader ndReader =
     (case parseMetadata mdReader of
        Panic \<Rightarrow> Panic
      | Return (md, Some err) \<Rightarrow> Return (None, None, Some err)
      | Return (md, None) \<Rightarrow>
          (case parseNetworkdata ndReader of
             Panic \<Rightarrow> Panic
           | Return (nd, err) \<Rightarrow> Return (md, nd, None)))"

subsection \<open>The collaborators\<close>

definition metadataUrl :: string where
  "metadataUrl = ''http://169.254.169.254/''"

definition metadataPath :: string where
  "metadataPath = ''openstack/2012-08-10/meta_data.json''"

definition networkdataPath :: string where
  "networkdataPath = ''openstack/2015-10-15/network_data.json''"

definition configDriveLabel :: string where
  "configDriveLabel = ''config-2''"

record response =
  StatusCode :: int
  Status :: string
  Body :: body

text \<open>
  The answers of the outside world during one call: \<open>os.Stat\<close>, the combined output of a
  command, \<open>strings.TrimSpace\<close>, \<open>ioutil.TempDir\<close>, \<open>Mounter.Mount\<close>, \<open>os.Open\<close> (of the
  path joined from a directory and a relative path; the answer is the stream of the opened
  file) and \<open>http.Get\<close>.
\<close>

record env =
  Stat :: "string \<Rightarrow> error option"
  CombinedOutput :: "string \<Rightarrow> string list \<Rightarrow> error + string"
  TrimSpace :: "string \<Rightarrow> string"
  TempDir :: "string \<Rightarrow> string \<Rightarrow> error + string"
  Mount :: "string \<Rightarrow> string \<Rightarrow> string \<Rightarrow> string list \<Rightarrow> error option"
  Open :: "string \<Rightarrow> string \<Rightarrow> error + stream"
  Get :: "string \<Rightarrow> error + response"

definition IsNotExist :: "error option \<Rightarrow> bool" where
  "IsNotExist err = (err = Some ErrNotExist)"

text \<open>The calls made to the collaborators, in the order they are made.\<close>

datatype event =
    EvStat string
  | EvCommand string "string list"
  | EvTempDir string string
  | EvRemove string
  | EvMount string string string "string list"
  | EvUnmount string
  | EvOpen string string
  | EvClose string string
  | EvGet string
  | EvBodyClose string

subsection \<open>getMetadataFromConfigDrive\<close>

text \<open>
  The result comes with the calls made. A \<open>defer\<close> pushes its call on the list of deferred
  calls; they run last in, first out when the function returns, whatever the return, and
  what they return (\<open>Close\<close>, \<open>Unmount\<close>, \<open>Remove\<close>) is dropped.
\<close>

definition getMetadataFromConfigDrive :: "env \<Rightarrow> result go \<times> event list" where
  "getMetadataFromConfigDrive e =
     (let dev0 = ''/dev/disk/by-label/'' @ configDriveLabel;
          args = [''-l'', ''-t'', ''LABEL='' @ configDriveLabel, ''-o'', ''device''];
          (located, evs0) =
            (if IsNotExist (Stat e dev0)
             then (case CombinedOutput e ''blkid'' args of
                     Inl err \<Rightarrow> Inl err
                   | Inr out \<Rightarrow> Inr (TrimSpace e out),
                   [EvStat dev0, EvCommand ''blkid'' args])
             else (Inr dev0, [EvStat dev0]))
      in case located of
           Inl err \<Rightarrow> (Return (None, None, Some err), evs0)
         | Inr dev \<Rightarrow>
             (case TempDir e [] ''configdrive'' of
                Inl err \<Rightarrow> (Return (None, None, Some err), evs0 @ [EvTempDir [] ''configdrive''])
              | Inr mntdir \<Rightarrow>
                  (let defer1 = [EvRemove mntdir];
                       err1 = Mount e dev mntdir ''iso9660'' [''ro''];
                       (err, evs1) =
                         (if err1 \<noteq> None
                          then (Mount e dev mntdir ''vfat'' [''ro''],
                                [EvMount dev mntdir ''iso9660'' [''ro''],
                                 EvMount dev mntdir ''vfat'' [''ro'']])
                          else (err1, [EvMount dev mntdir ''iso9660'' [''ro'']]));
                       evs = evs0 @ [EvTempDir [] ''configdrive''] @ evs1
                   in case err of
                        Some er \<Rightarrow> (Return (None, None, Some er), evs @ defer1)
                      | None \<Rightarrow>
                          (let defer2 = EvUnmount mntdir # defer1
                           in case Open e mntdir metadataPath of
                                Inl er \<Rightarrow>
                                  (Return (None, None, Some er),
                                   evs @ [EvOpen mntdir metadataPath] @ defer2)
                              | Inr f \<Rightarrow>
                                  (let defer3 = EvClose mntdir metadataPath # defer2;
                                       (f2, defer4) =
                                         (case Open e mntdir networkdataPath of
                                            Inl err2 \<Rightarrow> (None, defer3)
                                          | Inr s \<Rightarrow>
                                              (Some s, EvClose mntdir networkdataPath # defer3))
                                   in (parseFullMetadata (OsFile (Some f)) (OsFile f2),
                                       evs @ [EvOpen mntdir metadataPath,
                                              EvOpen mntdir networkdataPath] @ defer4))))))"

subsection \<open>get and getMetadataFromMetadataService\<close>

text \<open>
  \<open>defer resp.Body.Close()\<close> runs when \<open>get\<close> returns: the reader handed to the caller is
  the closed body.
\<close>

definition get :: "env \<Rightarrow> string \<Rightarrow> (reader \<times> error option) \<times> event list" where
  "get e url =
     (case Get e url of
        Inl err \<Rightarrow> ((NilInterface, Some err), [EvGet url])
      | Inr resp \<Rightarrow>
          if StatusCode resp \<noteq> 200
          then ((NilInterface, Some (StatusError url (Status resp))),
                [EvGet url, EvBodyClose url])
          else ((RespBody (Close (Body resp)), None), [EvGet url, EvBodyClose url]))"

definition getMetadataFromMetadataService :: "env \<Rightarrow> result go \<times> event list" where
  "getMetadataFromMetadataService e =
     (case get e (metadataUrl @ metadataPath) of
        ((mdBody, Some err), evs1) \<Rightarrow> (Return (None, None, Some err), evs1)
      | ((mdBody, None), evs1) \<Rightarrow>
          (case get e (metadataUrl @ networkdataPath) of
             ((ndBody, err), evs2) \<Rightarrow> (parseFullMetadata mdBody ndBody, evs1 @ evs2)))"

subsection \<open>getMetadata\<close>

text \<open>The package variables \<open>metadataCache\<close> and \<open>networkdataCache\<close>, and the calls the
  process has made so far.\<close>

record state =
  metadataCache :: "Metadata option"
  networkdataCache :: "Networkdata option"
  trace :: "event list"

definition init :: state where
  "init = \<lparr>metadataCache = None, networkdataCache = None, trace = []\<rparr>"

definition getMetadata :: "env \<Rightarrow> state \<Rightarrow> result go \<times> state" where
  "getMetadata e st =
     (if metadataCache st = None then
        (case getMetadataFromConfigDrive e of
           (Panic, evs1) \<Rightarrow> (Panic, st\<lparr>trace := trace st @ evs1\<rparr>)
         | (Return (md1, nd1, err1), evs1) \<Rightarrow>
             (case (if err1 \<noteq> None then getMetadataFromMetadataService e
                    else (Return (md1, nd1, err1), [])) of
                (Panic, evs2) \<Rightarrow> (Panic, st\<lparr>trace := trace st @ evs1 @ evs2\<rparr>)
              | (Return (md, nd, err), evs2) \<Rightarrow>
                  if err \<noteq> None
                  then (Return (None, None, err), st\<lparr>trace := trace st @ evs1 @ evs2\<rparr>)
                  else (Return (md, nd, None),
                        st\<lparr>metadataCache := md, networkdataCache := nd,
                           trace := trace st @ evs1 @ evs2\<rparr>)))
      else (Return (metadataCache st, networkdataCache st, None), st))"

text \<open>Calls one after the other, each with the answers the world gives during it.\<close>

fun calls :: "env list \<Rightarrow> state \<Rightarrow> result go list \<times> state" where
  "calls [] st = ([], st)"
| "calls (e # es) st =
     (case getMetadata e st of
        (r, st') \<Rightarrow> (case calls es st' of (rs, st'') \<Rightarrow> (r # rs, st'')))"

subsection \<open>Reading a document\<close>

text \<open>
  The member of an object that decides a field: the last member whose name is the field's
  tag up to letter case (compared as the decoder compares) and whose value is not \<open>null\<close>.
  \<open>field_string\<close> is its string, and the empty string when there is no such member.
\<close>

fun doc_field :: "string \<Rightarrow> (string \<times> json) list \<Rightarrow> json option" where
  "doc_field tag [] = None"
| "doc_field tag ((k, j) # kvs) =
     (case doc_field tag kvs of
        Some v \<Rightarrow> Some v
      | None \<Rightarrow> if equalFold tag k \<and> j \<noteq> JNull then Some j else None)"

definition field_string :: "string \<Rightarrow> (string \<times> json) list \<Rightarrow> string" where
  "field_string tag kvs = (case doc_field tag kvs of Some (JString s) \<Rightarrow> s | _ \<Rightarrow> [])"

subsection \<open>Example documents and environments\<close>

text \<open>The document \<open>{"uuid":"abc-123","name":"vm1","availability_zone":"az1"}\<close>.\<close>

definition doc_instance :: json where
  "doc_instance =
     JObject [(''uuid'', JString ''abc-123''), (''name'', JString ''vm1''),
              (''availability_zone'', JString ''az1'')]"

text \<open>The document
  \<open>{"links":[{"id":"tap1","type":"ovs"}],"networks":[{"network_id":"n1","link":"tap1"}]}\<close>.\<close>

definition doc_network :: json where
  "doc_network =
     JObject [(''links'', JArray [JObject [(''id'', JString ''tap1''), (''type'', JString ''ovs'')]]),
              (''networks'',
               JArray [JObject [(''network_id'', JString ''n1''), (''link'', JString ''tap1'')]])]"

text \<open>A response with status 200 whose body can still be read after \<open>Close\<close>.\<close>

definition ok_response :: "json \<Rightarrow> response" where
  "ok_response j =
     \<lparr>StatusCode = 200, Status = ''200 OK'',
      Body = \<lparr>closed = False, unread = Inr j, after_close = Inr j\<rparr>\<rparr>"

text \<open>No config drive (the device alias is missing and \<open>blkid\<close> fails) and no metadata
  server.\<close>

definition env_nothing :: env where
  "env_nothing =
     \<lparr>Stat = (\<lambda>name. Some ErrNotExist),
      CombinedOutput = (\<lambda>cmd args. Inl (Failure ''exit status 2'')),
      TrimSpace = (\<lambda>s. s),
      TempDir = (\<lambda>dir prefix. Inr ''/tmp/configdrive1''),
      Mount = (\<lambda>dev dir fstype opts. Some (Failure ''no such device'')),
      Open = (\<lambda>dir path. Inl ErrNotExist),
      Get = (\<lambda>url. Inl (Failure ''no route to host''))\<rparr>"

text \<open>A config drive in the legacy format (the \<open>iso9660\<close> mount fails, the \<open>vfat\<close> one
  succeeds) that holds \<open>meta_data.json\<close> and no \<open>network_data.json\<close>.\<close>

definition env_drive :: env where
  "env_drive =
     env_nothing
       \<lparr>Stat := (\<lambda>name. None),
        Mount := (\<lambda>dev dir fstype opts.
                    if fstype = ''iso9660'' then Some (Failure ''wrong fs type'') else None),
        Open := (\<lambda>dir path. if path = metadataPath then Inr (Inr doc_instance)
                             else Inl ErrNotExist)\<rparr>"

text \<open>No config drive; the metadata server answers both requests.\<close>

definition env_service :: env where
  "env_service =
     env_nothing
       \<lparr>Get := (\<lambda>url. if url = metadataUrl @ metadataPath then Inr (ok_response doc_instance)
                       else Inr (ok_response doc_network))\<rparr>"

text \<open>No config drive; the metadata server answers the first request and has no
  \<open>network_data.json\<close>.\<close>

definition env_service_404 :: env where
  "env_service_404 =
     env_nothing
       \<lparr>Get := (\<lambda>url. if url = metadataUrl @ metadataPath then Inr (ok_response doc_instance)
                       else Inr \<lparr>StatusCode = 404, Status = ''404 Not Found'',
                                Body = \<lparr>closed = False, unread = Inl (Failure ''EOF''),
                                        after_close = Inl (Failure ''EOF'')\<rparr>\<rparr>)\<rparr>"

section \<open>Properties\<close>

subsection \<open>Field lookup\<close>

text \<open>No member name selects two of the three fields of \<open>Metadata\<close>, so the field a member
  is stored in is the one whose tag is its name up to letter case.\<close>

lemma equalFold_Metadata_tags:
  "equalFold ''uuid'' ''uuid''" "equalFold ''name'' ''name''"
  "equalFold ''availability_zone'' ''availability_zone''"
  by (simp_all add: toLower_def)

lemma equalFold_head:
  assumes "equalFold (sb # s) k"
  shows "\<exists>tb t. k = tb # t \<and>
           (if \<not> digit7 tb then toLower sb = toLower tb
            else toLower sb = CHR ''k'' \<or> toLower sb = CHR ''s'')"
  using assms by (cases k) (auto split: if_splits)

lemma equalFold_apart:
  assumes "equalFold (a # s) k" and "equalFold (b # t) k"
    and "toLower a \<noteq> CHR ''k''" and "toLower a \<noteq> CHR ''s''"
  shows "toLower a = toLower b"
  using equalFold_head [OF assms(1)] equalFold_head [OF assms(2)] assms(3,4)
  by (auto split: if_splits)

lemma equalFold_Metadata_apart:
  "equalFold ''uuid'' k \<Longrightarrow> \<not> equalFold ''name'' k"
  "equalFold ''uuid'' k \<Longrightarrow> \<not> equalFold ''availability_zone'' k"
  "equalFold ''name'' k \<Longrightarrow> \<not> equalFold ''availability_zone'' k"
  using equalFold_apart [of "CHR ''u''" "''uid''" k "CHR ''n''" "''ame''"]
        equalFold_apart [of "CHR ''u''" "''uid''" k "CHR ''a''" "''vailability_zone''"]
        equalFold_apart [of "CHR ''n''" "''ame''" k "CHR ''a''" "''vailability_zone''"]
  by (auto simp: toLower_def)

lemma findField_Metadata_tags:
  "findField Metadata_tags k =
     (if equalFold ''uuid'' k then Some ''uuid''
      else if equalFold ''name'' k then Some ''name''
      else if equalFold ''availability_zone'' k then Some ''availability_zone''
      else None)"
proof (cases "k \<in> set Metadata_tags")
  case True
  then consider "k = ''uuid''" | "k = ''name''" | "k = ''availability_zone''"
    by (auto simp: Metadata_tags_def)
  then show ?thesis
  proof cases
    case 1
    then show ?thesis using True equalFold_Metadata_tags by (simp add: findField_def)
  next
    case 2
    then show ?thesis
      using True equalFold_Metadata_tags equalFold_Metadata_apart(1) [of k]
      by (auto simp: findField_def)
  next
    case 3
    then show ?thesis
      using True equalFold_Metadata_tags equalFold_Metadata_apart(2,3) [of k]
      by (auto simp: findField_def)
  qed
next
  case False
  then show ?thesis by (simp add: findField_def) (simp add: Metadata_tags_def)
qed

subsection \<open>The members of an instance document\<close>

lemma store_string_fst:
  "fst (store_string j old) = (case j of JString s \<Rightarrow> s | _ \<Rightarrow> old)"
  by (cases j) simp_all

lemma store_string_snd:
  "snd (store_string j old) =
     (if j = JNull \<or> (\<exists>s. j = JString s) then None else Some UnmarshalTypeError)"
  by (cases j) simp_all

text \<open>One member of an instance document: what it does to the three fields and to the
  saved error.\<close>

lemma object_members_Metadata_step:
  obtains m' saved' where
    "object_members Metadata_tags store_Metadata ((k, j) # kvs) (m, saved) =
       object_members Metadata_tags store_Metadata kvs (m', saved')"
    "Uuid m' = (if equalFold ''uuid'' k then fst (store_string j (Uuid m)) else Uuid m)"
    "Name m' = (if equalFold ''name'' k then fst (store_string j (Name m)) else Name m)"
    "AvailabilityZone m' =
       (if equalFold ''availability_zone'' k then fst (store_string j (AvailabilityZone m))
        else AvailabilityZone m)"
    "saved' =
       (if equalFold ''uuid'' k \<or> equalFold ''name'' k \<or> equalFold ''availability_zone'' k
        then saveError saved (snd (store_string j []))
        else saved)"
proof -
  have snd_eq: "snd (store_string j old) = snd (store_string j [])" for old
    by (simp add: store_string_snd)
  consider (u) "equalFold ''uuid'' k" | (n) "equalFold ''name'' k"
    | (a) "equalFold ''availability_zone'' k"
    | (none) "\<not> equalFold ''uuid'' k" "\<not> equalFold ''name'' k"
        "\<not> equalFold ''availability_zone'' k"
    by blast
  then show thesis
  proof cases
    case u
    with equalFold_Metadata_apart [of k]
    have no: "\<not> equalFold ''name'' k" "\<not> equalFold ''availability_zone'' k" by blast+
    show thesis
      using u no snd_eq [of "Uuid m"]
      by (intro that [of "m\<lparr>Uuid := fst (store_string j (Uuid m))\<rparr>"
            "saveError saved (snd (store_string j []))"])
         (simp_all add: findField_Metadata_tags store_Metadata_def case_prod_unfold)
  next
    case n
    with equalFold_Metadata_apart [of k]
    have no: "\<not> equalFold ''uuid'' k" "\<not> equalFold ''availability_zone'' k" by blast+
    show thesis
      using n no snd_eq [of "Name m"]
      by (intro that [of "m\<lparr>Name := fst (store_string j (Name m))\<rparr>"
            "saveError saved (snd (store_string j []))"])
         (simp_all add: findField_Metadata_tags store_Metadata_def case_prod_unfold)
  next
    case a
    with equalFold_Metadata_apart [of k]
    have no: "\<not> equalFold ''uuid'' k" "\<not> equalFold ''name'' k" by blast+
    show thesis
      using a no snd_eq [of "AvailabilityZone m"]
      by (intro that [of "m\<lparr>AvailabilityZone := fst (store_string j (AvailabilityZone m))\<rparr>"
            "saveError saved (snd (store_string j []))"])
         (simp_all add: findField_Metadata_tags store_Metadata_def case_prod_unfold)
  next
    case none
    then show thesis
      by (intro that [of m saved]) (simp_all add: findField_Metadata_tags)
  qed
qed

lemma doc_field_Cons_None:
  "doc_field tag ((k, j) # kvs) = None \<longleftrightarrow>
     doc_field tag kvs = None \<and> (equalFold tag k \<longrightarrow> j = JNull)"
  by (auto split: option.splits)

lemma doc_field_Cons_Some:
  "doc_field tag ((k, j) # kvs) = Some v \<longleftrightarrow>
     doc_field tag kvs = Some v \<or> (doc_field tag kvs = None \<and> equalFold tag k \<and> j \<noteq> JNull \<and> v = j)"
  by (auto split: option.splits)

lemma object_members_Uuid:
  "(doc_field ''uuid'' kvs = None \<longrightarrow>
      Uuid (fst (object_members Metadata_tags store_Metadata kvs (m, saved))) = Uuid m) \<and>
   (\<forall>s. doc_field ''uuid'' kvs = Some (JString s) \<longrightarrow>
      Uuid (fst (object_members Metadata_tags store_Metadata kvs (m, saved))) = s)"
proof (induction kvs arbitrary: m saved)
  case Nil
  then show ?case by simp
next
  case (Cons kv kvs)
  obtain k j where kv: "kv = (k, j)" by (cases kv)
  obtain m' saved' where step:
    "object_members Metadata_tags store_Metadata ((k, j) # kvs) (m, saved) =
       object_members Metadata_tags store_Metadata kvs (m', saved')"
    "Uuid m' = (if equalFold ''uuid'' k then fst (store_string j (Uuid m)) else Uuid m)"
    by (rule object_members_Metadata_step [of k j kvs m saved])
  note IH = Cons.IH [of m' saved']
  show ?case
  proof (cases "doc_field ''uuid'' kvs")
    case (Some v)
    then show ?thesis unfolding kv step(1) using IH by simp
  next
    case None
    then show ?thesis unfolding kv step(1) using IH step(2)
      by (cases j) (simp_all add: store_string_fst)
  qed
qed

lemma object_members_Name:
  "(doc_field ''name'' kvs = None \<longrightarrow>
      Name (fst (object_members Metadata_tags store_Metadata kvs (m, saved))) = Name m) \<and>
   (\<forall>s. doc_field ''name'' kvs = Some (JString s) \<longrightarrow>
      Name (fst (object_members Metadata_tags store_Metadata kvs (m, saved))) = s)"
proof (induction kvs arbitrary: m saved)
  case Nil
  then show ?case by simp
next
  case (Cons kv kvs)
  obtain k j where kv: "kv = (k, j)" by (cases kv)
  obtain m' saved' where step:
    "object_members Metadata_tags store_Metadata ((k, j) # kvs) (m, saved) =
       object_members Metadata_tags store_Metadata kvs (m', saved')"
    "Name m' = (if equalFold ''name'' k then fst (store_string j (Name m)) else Name m)"
    by (rule object_members_Metadata_step [of k j kvs m saved])
  note IH = Cons.IH [of m' saved']
  show ?case
  proof (cases "doc_field ''name'' kvs")
    case (Some v)
    then show ?thesis unfolding kv step(1) using IH by simp
  next
    case None
    then show ?thesis unfolding kv step(1) using IH step(2)
      by (cases j) (simp_all add: store_string_fst)
  qed
qed

lemma object_members_AvailabilityZone:
  "(doc_field ''availability_zone'' kvs = None \<longrightarrow>
      AvailabilityZone (fst (object_members Metadata_tags store_Metadata kvs (m, saved))) =
      AvailabilityZone m) \<and>
   (\<forall>s. doc_field ''availability_zone'' kvs = Some (JString s) \<longrightarrow>
      AvailabilityZone (fst (object_members Metadata_tags store_Metadata kvs (m, saved))) = s)"
proof (induction kvs arbitrary: m saved)
  case Nil
  then show ?case by simp
next
  case (Cons kv kvs)
  obtain k j where kv: "kv = (k, j)" by (cases kv)
  obtain m' saved' where step:
    "object_members Metadata_tags store_Metadata ((k, j) # kvs) (m, saved) =
       object_members Metadata_tags store_Metadata kvs (m', saved')"
    "AvailabilityZone m' =
       (if equalFold ''availability_zone'' k then fst (store_string j (AvailabilityZone m))
        else AvailabilityZone m)"
    by (rule object_members_Metadata_step [of k j kvs m saved])
  note IH = Cons.IH [of m' saved']
  show ?case
  proof (cases "doc_field ''availability_zone'' kvs")
    case (Some v)
    then show ?thesis unfolding kv step(1) using IH by simp
  next
    case None
    then show ?thesis unfolding kv step(1) using IH step(2)
      by (cases j) (simp_all add: store_string_fst)
  qed
qed

lemma object_members_Metadata_saved:
  assumes "\<forall>(k, j) \<in> set kvs.
             equalFold ''uuid'' k \<or> equalFold ''name'' k \<or> equalFold ''availability_zone'' k
             \<longrightarrow> j = JNull \<or> (\<exists>s. j = JString s)"
  shows "snd (object_members Metadata_tags store_Metadata kvs (m, saved)) = saved"
  using assms
proof (induction kvs arbitrary: m saved)
  case Nil
  then show ?case by simp
next
  case (Cons kv kvs)
  obtain k j where kv: "kv = (k, j)" by (cases kv)
  obtain m' saved' where step:
    "object_members Metadata_tags store_Metadata ((k, j) # kvs) (m, saved) =
       object_members Metadata_tags store_Metadata kvs (m', saved')"
    "saved' =
       (if equalFold ''uuid'' k \<or> equalFold ''name'' k \<or> equalFold ''availability_zone'' k
        then saveError saved (snd (store_string j []))
        else saved)"
    by (rule object_members_Metadata_step [of k j kvs m saved])
  have "saved' = saved"
    using step(2) Cons.prems kv
    by (auto simp: store_string_snd saveError_def split: option.splits)
  moreover have "snd (object_members Metadata_tags store_Metadata kvs (m', saved')) = saved'"
    using Cons.prems by (intro Cons.IH) simp
  ultimately show ?case unfolding kv step(1) by simp
qed

lemma doc_field_wf:
  assumes "\<forall>(k, j) \<in> set kvs. equalFold tag k \<longrightarrow> (\<exists>s. j = JString s)"
  shows "doc_field tag kvs = None \<or> (\<exists>s. doc_field tag kvs = Some (JString s))"
  using assms by (induction kvs) (auto split: option.splits)

lemma doc_field_string_or_null:
  assumes "\<forall>(k, j) \<in> set kvs. equalFold tag k \<longrightarrow> j = JNull \<or> (\<exists>s. j = JString s)"
  shows "doc_field tag kvs = None \<or> (\<exists>s. doc_field tag kvs = Some (JString s))"
  using assms by (induction kvs) (auto split: option.splits)

lemma field_string_cases:
  "doc_field tag kvs = None \<Longrightarrow> field_string tag kvs = []"
  "doc_field tag kvs = Some (JString s) \<Longrightarrow> field_string tag kvs = s"
  by (simp_all add: field_string_def)

text \<open>The exact-name reading: with distinct member names, none of them the tag in another
  letter case, the deciding member is the one with the tag as its name.\<close>

lemma doc_field_exact:
  assumes "distinct (map fst kvs)"
    and "\<forall>k \<in> set (map fst kvs). equalFold tag k \<longrightarrow> k = tag"
    and "equalFold tag tag"
    and "map_of kvs tag = Some j" and "j \<noteq> JNull"
  shows "doc_field tag kvs = Some j"
  using assms
proof (induction kvs)
  case Nil
  then show ?case by simp
next
  case (Cons kv kvs)
  obtain k v where kv: "kv = (k, v)" by (cases kv)
  show ?case
  proof (cases "k = tag")
    case True
    then have "v = j" using Cons.prems(4) kv by simp
    moreover have "doc_field tag kvs = None"
    proof -
      have "tag \<notin> fst ` set kvs" using Cons.prems(1) kv True by auto
      moreover have "\<forall>k \<in> set (map fst kvs). equalFold tag k \<longrightarrow> k = tag"
        using Cons.prems(2) by simp
      ultimately show ?thesis
        by (induction kvs) (auto split: option.splits)
    qed
    ultimately show ?thesis using kv True Cons.prems(3,5) by simp
  next
    case False
    then have "map_of kvs tag = Some j" using Cons.prems(4) kv by simp
    then have "doc_field tag kvs = Some j" using Cons.prems by (intro Cons.IH) simp_all
    then show ?thesis using kv by simp
  qed
qed

text \<open>What \<open>Decode\<close> makes of an object whose members for the three fields are strings or
  \<open>null\<close>.\<close>

lemma Decode_Metadata_fields:
  assumes "\<forall>(k, j) \<in> set kvs.
             equalFold ''uuid'' k \<or> equalFold ''name'' k \<or> equalFold ''availability_zone'' k
             \<longrightarrow> j = JNull \<or> (\<exists>s. j = JString s)"
  shows "Decode_Metadata (JObject kvs) =
           Inr \<lparr>Uuid = field_string ''uuid'' kvs, Name = field_string ''name'' kvs,
                AvailabilityZone = field_string ''availability_zone'' kvs\<rparr>"
proof -
  obtain m saved where om:
    "object_members Metadata_tags store_Metadata kvs (zero_Metadata, None) = (m, saved)"
    by (cases "object_members Metadata_tags store_Metadata kvs (zero_Metadata, None)")
  have saved: "saved = None"
    using object_members_Metadata_saved [OF assms, of zero_Metadata None] om by simp
  have u: "doc_field ''uuid'' kvs = None \<or> (\<exists>s. doc_field ''uuid'' kvs = Some (JString s))"
    using assms by (intro doc_field_string_or_null) auto
  have n: "doc_field ''name'' kvs = None \<or> (\<exists>s. doc_field ''name'' kvs = Some (JString s))"
    using assms by (intro doc_field_string_or_null) auto
  have a: "doc_field ''availability_zone'' kvs = None \<or>
           (\<exists>s. doc_field ''availability_zone'' kvs = Some (JString s))"
    using assms by (intro doc_field_string_or_null) auto
  have "Uuid m = field_string ''uuid'' kvs"
    using u object_members_Uuid [of kvs zero_Metadata None] om
    by (auto simp: field_string_cases zero_Metadata_def)
  moreover have "Name m = field_string ''name'' kvs"
    using n object_members_Name [of kvs zero_Metadata None] om
    by (auto simp: field_string_cases zero_Metadata_def)
  moreover have "AvailabilityZone m = field_string ''availability_zone'' kvs"
    using a object_members_AvailabilityZone [of kvs zero_Metadata None] om
    by (auto simp: field_string_cases zero_Metadata_def)
  ultimately have "m = \<lparr>Uuid = field_string ''uuid'' kvs, Name = field_string ''name'' kvs,
                AvailabilityZone = field_string ''availability_zone'' kvs\<rparr>"
    by (cases m) simp
  then show ?thesis using om saved
    by (simp add: Decode_Metadata_def store_struct_def decoded_def)
qed

subsection \<open>parseMetadata on well-formed documents\<close>

text \<open>
  A member named by a tag in another letter case is not an unknown member: in
  \<open>{"uuid":"abc-123","name":"vm1","availability_zone":"az1","NAME":"other"}\<close> the member
  \<open>name\<close> is \<open>"vm1"\<close>, and \<open>parseMetadata\<close> returns the name \<open>"other"\<close>.
\<close>

theorem parseMetadata_roundtrip_counterexample:
  "map_of [(''uuid'', JString ''abc-123''), (''name'', JString ''vm1''),
           (''availability_zone'', JString ''az1''), (''NAME'', JString ''other'')] ''name'' =
     Some (JString ''vm1'') \<and>
   parseMetadata (OsFile (Some (Inr (JObject
     [(''uuid'', JString ''abc-123''), (''name'', JString ''vm1''),
      (''availability_zone'', JString ''az1''), (''NAME'', JString ''other'')])))) =
     Return (Some \<lparr>Uuid = ''abc-123'', Name = ''other'', AvailabilityZone = ''az1''\<rparr>, None)"
  by (simp add: parseMetadata_def Decode_Metadata_def decoded_def store_struct_def
      findField_def Metadata_tags_def store_Metadata_def saveError_def zero_Metadata_def
      toLower_def)

text \<open>
  C8. In an object whose members named \<open>uuid\<close>, \<open>name\<close> or \<open>availability_zone\<close>
  up to letter case hold strings (or \<open>null\<close>), and whose \<open>uuid\<close> is not empty,
  \<open>parseMetadata\<close> succeeds and returns, for each of the three fields, the string of the
  last such member that is not \<open>null\<close>, and the empty string when there is none; members
  with any other name are ignored. By \<open>doc_field_exact\<close> this is the member with exactly
  that name when the names are distinct and no name is a tag in another letter case. The
  witness holds the document \<open>{"uuid":"abc-123","name":"vm1","availability_zone":"az1"}\<close>.
\<close>

theorem parseMetadata_roundtrip:
  assumes "readValue r = Return (Inr (JObject kvs))"
    and "\<forall>(k, j) \<in> set kvs.
           equalFold ''uuid'' k \<or> equalFold ''name'' k \<or> equalFold ''availability_zone'' k
           \<longrightarrow> j = JNull \<or> (\<exists>s. j = JString s)"
    and "field_string ''uuid'' kvs \<noteq> []"
  shows "parseMetadata r =
           Return (Some \<lparr>Uuid = field_string ''uuid'' kvs, Name = field_string ''name'' kvs,
                         AvailabilityZone = field_string ''availability_zone'' kvs\<rparr>, None)"
  using assms(1,3) Decode_Metadata_fields [OF assms(2)]
  by (simp add: parseMetadata_def)

theorem parseMetadata_roundtrip_witness:
  "parseMetadata (OsFile (Some (Inr (JObject
      [(''uuid'', JString ''abc-123''), (''name'', JString ''vm1''),
       (''availability_zone'', JString ''az1'')])))) =
   Return (Some \<lparr>Uuid = ''abc-123'', Name = ''vm1'', AvailabilityZone = ''az1''\<rparr>, None) \<and>
   parseMetadata (OsFile (Some (Inr (JObject
      [(''hostname'', JNumber ''7''), (''Name'', JString ''vm0''), (''uuid'', JString ''abc-123''),
       (''NAME'', JString ''vm1''), (''meta'', JObject [(''uuid'', JNull)])])))) =
   Return (Some \<lparr>Uuid = ''abc-123'', Name = ''vm1'', AvailabilityZone = []\<rparr>, None)"
  using parseMetadata_roundtrip [of "OsFile (Some (Inr (JObject
      [(''uuid'', JString ''abc-123''), (''name'', JString ''vm1''),
       (''availability_zone'', JString ''az1'')])))"
      "[(''uuid'', JString ''abc-123''), (''name'', JString ''vm1''),
       (''availability_zone'', JString ''az1'')]"]
    parseMetadata_roundtrip [of "OsFile (Some (Inr (JObject
      [(''hostname'', JNumber ''7''), (''Name'', JString ''vm0''), (''uuid'', JString ''abc-123''),
       (''NAME'', JString ''vm1''), (''meta'', JObject [(''uuid'', JNull)])])))"
      "[(''hostname'', JNumber ''7''), (''Name'', JString ''vm0''), (''uuid'', JString ''abc-123''),
       (''NAME'', JString ''vm1''), (''meta'', JObject [(''uuid'', JNull)])]"]
  by (simp add: field_string_def toLower_def)

subsection \<open>parseMetadata without a uuid\<close>


text \<open>An ill-formed \<open>name\<close> is reported before the missing \<open>uuid\<close>.\<close>

lemma parseMetadata_name_number:
  "parseMetadata (OsFile (Some (Inr (JObject [(''name'', JNumber ''5'')])))) =
     Return (None, Some UnmarshalTypeError)"
  by (simp add: parseMetadata_def Decode_Metadata_def decoded_def store_struct_def
      findField_def Metadata_tags_def store_Metadata_def saveError_def zero_Metadata_def
      toLower_def)



subsection \<open>parseNetworkdata: the links of the networks\<close>

lemma range_Networks_fst: "fst (range_Networks ns (nd, v)) = nd"
  by (induction ns arbitrary: v) simp_all

lemma store_Network_Link: "Link (fst (store_Network tag j n)) = Link n"
  by (simp add: store_Network_def split: prod.splits)

lemma object_members_Network_Link:
  "Link (fst (object_members Network_tags store_Network kvs (n, saved))) = Link n"
proof (induction kvs arbitrary: n saved)
  case Nil
  then show ?case by simp
next
  case (Cons kv kvs)
  obtain k j where kv: "kv = (k, j)" by (cases kv)
  show ?case
  proof (cases "findField Network_tags k")
    case None
    then show ?thesis using kv Cons.IH by simp
  next
    case (Some tag)
    obtain n' err where st: "store_Network tag j n = (n', err)" by (cases "store_Network tag j n")
    then have "Link n' = Link n" using store_Network_Link [of tag j n] by simp
    then show ?thesis using kv Some st Cons.IH [of n'] by simp
  qed
qed

lemma store_struct_Network_Link:
  "Link (fst (store_struct Network_tags store_Network j zero_Network)) = None"
  by (cases j) (simp_all add: store_struct_def object_members_Network_Link zero_Network_def)

lemma store_Networkdata_Link:
  assumes "\<forall>n \<in> set (Networks nd). Link n = None"
  shows "\<forall>n \<in> set (Networks (fst (store_Networkdata tag j nd))). Link n = None"
proof -
  have "\<forall>n \<in> set (fst (store_slice (store_struct Network_tags store_Network) zero_Network j
                          (Networks nd))). Link n = None"
    using assms by (cases j) (auto simp: store_slice_def store_struct_Network_Link)
  then show ?thesis using assms
    by (simp add: store_Networkdata_def split: prod.splits)
qed

lemma object_members_Networkdata_Link:
  assumes "\<forall>n \<in> set (Networks nd). Link n = None"
  shows "\<forall>n \<in> set (Networks (fst (object_members Networkdata_tags store_Networkdata kvs
                                      (nd, saved)))). Link n = None"
  using assms
proof (induction kvs arbitrary: nd saved)
  case Nil
  then show ?case by simp
next
  case (Cons kv kvs)
  obtain k j where kv: "kv = (k, j)" by (cases kv)
  show ?case
  proof (cases "findField Networkdata_tags k")
    case None
    then show ?thesis using kv Cons.IH [OF Cons.prems] by simp
  next
    case (Some tag)
    obtain nd' err where st: "store_Networkdata tag j nd = (nd', err)"
      by (cases "store_Networkdata tag j nd")
    then have "\<forall>n \<in> set (Networks nd'). Link n = None"
      using store_Networkdata_Link [OF Cons.prems, of tag j] by simp
    from Cons.IH [OF this] show ?thesis using kv Some st by simp
  qed
qed

lemma Decode_Networkdata_Link:
  assumes "Decode_Networkdata j = Inr nd"
  shows "\<forall>n \<in> set (Networks nd). Link n = None"
proof -
  have "\<forall>n \<in> set (Networks (fst (store_struct Networkdata_tags store_Networkdata j
                                   zero_Networkdata))). Link n = None"
    using object_members_Networkdata_Link [of zero_Networkdata]
    by (cases j) (simp_all add: store_struct_def zero_Networkdata_def)
  moreover have "nd = fst (store_struct Networkdata_tags store_Networkdata j zero_Networkdata)"
    using assms by (auto simp: Decode_Networkdata_def decoded_def split: prod.splits option.splits)
  ultimately show ?thesis by simp
qed

text \<open>Whatever the document, no network comes back with a link.\<close>

lemma parseNetworkdata_Link_nil:
  assumes "parseNetworkdata r = Return (Some nd, err)"
  shows "\<forall>n \<in> set (Networks nd). Link n = None"
  using assms Decode_Networkdata_Link
  by (auto simp: parseNetworkdata_def range_Networks_fst split: go.splits sum.splits)

text \<open>The loop variable does get the first link with the id.\<close>

lemma range_Links_first:
  "Link (range_Links links n) =
     (case find (\<lambda>link. Id link = LinkId n) links of None \<Rightarrow> Link n | Some link \<Rightarrow> Some link)"
  by (induction links) simp_all

text \<open>
  C1. The claim is that every network whose \<open>link\<close> is the \<open>id\<close> of a link comes back
  with that link in \<open>Link\<close>. On a document with one link \<open>tap1\<close> and one network on
  \<open>tap1\<close>, \<open>parseNetworkdata\<close> returns the network with a nil \<open>Link\<close>: the loop stores
  the link in its loop variable, a copy of the slice element.
\<close>

theorem parseNetworkdata_link_unset:
  "parseNetworkdata (OsFile (Some (Inr doc_network))) =
     Return (Some \<lparr>Links = [\<lparr>MAC = [], Type_Link = ''ovs'', Id = ''tap1''\<rparr>],
                   Networks = [\<lparr>NetworkId = ''n1'', IP = [], LinkId = ''tap1'', Link = None,
                                Type_Network = []\<rparr>],
                   Services = []\<rparr>, None)"
  by (simp add: parseNetworkdata_def doc_network_def Decode_Networkdata_def decoded_def
      store_struct_def store_slice_def findField_def toLower_def saveError_def
      Networkdata_tags_def store_Networkdata_def Link_tags_def store_Link_def
      Network_tags_def store_Network_def zero_Networkdata_def zero_Link_def zero_Network_def)

subsection \<open>What the parsers return\<close>

lemma parseMetadata_no_error:
  "parseMetadata r = Return (md, None) \<Longrightarrow> \<exists>m. md = Some m \<and> Uuid m \<noteq> []"
  by (auto simp: parseMetadata_def split: go.splits sum.splits if_splits)

lemma parseFullMetadata_no_error:
  "parseFullMetadata mdReader ndReader = Return (md, nd, None) \<Longrightarrow>
   \<exists>m. md = Some m \<and> Uuid m \<noteq> []"
  by (auto simp: parseFullMetadata_def split: go.splits option.splits prod.splits
      dest: parseMetadata_no_error)

lemma parseMetadata_OsFile: "parseMetadata (OsFile f) \<noteq> Panic"
  by (cases f) (auto simp: parseMetadata_def split: sum.splits)

lemma parseNetworkdata_OsFile: "parseNetworkdata (OsFile f) \<noteq> Panic"
  by (cases f) (auto simp: parseNetworkdata_def split: sum.splits)

lemma parseFullMetadata_OsFile: "parseFullMetadata (OsFile f) (OsFile f2) \<noteq> Panic"
  using parseMetadata_OsFile [of f] parseNetworkdata_OsFile [of f2]
  by (auto simp: parseFullMetadata_def split: go.splits option.splits prod.splits)

lemma parseNetworkdata_nil_file: "parseNetworkdata (OsFile None) = Return (None, Some ErrInvalid)"
  by (simp add: parseNetworkdata_def)

lemma parseNetworkdata_nil_interface: "parseNetworkdata NilInterface = Panic"
  by (simp add: parseNetworkdata_def)

subsection \<open>The exits of getMetadataFromConfigDrive\<close>

text \<open>
  The function leaves in one of four ways: no device, no temporary directory, both mounts
  failed, or mounted. \<open>evs0\<close> holds the calls that look for the device.
\<close>

lemma getMetadataFromConfigDrive_paths:
  obtains
    (NoDevice) err evs0 where
      "getMetadataFromConfigDrive e = (Return (None, None, Some err), evs0)"
      "\<forall>dev dir fstype opts. EvMount dev dir fstype opts \<notin> set evs0"
  | (NoTempDir) err evs0 where
      "getMetadataFromConfigDrive e =
         (Return (None, None, Some err), evs0 @ [EvTempDir [] ''configdrive''])"
      "\<forall>dev dir fstype opts. EvMount dev dir fstype opts \<notin> set evs0"
  | (MountFailed) dev mntdir evs0 err1 err where
      "Mount e dev mntdir ''iso9660'' [''ro''] = Some err1"
      "Mount e dev mntdir ''vfat'' [''ro''] = Some err"
      "getMetadataFromConfigDrive e =
         (Return (None, None, Some err),
          evs0 @ [EvTempDir [] ''configdrive'', EvMount dev mntdir ''iso9660'' [''ro''],
                  EvMount dev mntdir ''vfat'' [''ro''], EvRemove mntdir])"
      "\<forall>dev dir fstype opts. EvMount dev dir fstype opts \<notin> set evs0"
  | (Mounted) dev mntdir evs0 evs1 where
      "evs1 = [EvMount dev mntdir ''iso9660'' [''ro'']] \<or>
       evs1 = [EvMount dev mntdir ''iso9660'' [''ro''], EvMount dev mntdir ''vfat'' [''ro'']]"
      "getMetadataFromConfigDrive e =
         (case Open e mntdir metadataPath of
            Inl er \<Rightarrow>
              (Return (None, None, Some er),
               evs0 @ [EvTempDir [] ''configdrive''] @ evs1 @
               [EvOpen mntdir metadataPath, EvUnmount mntdir, EvRemove mntdir])
          | Inr f \<Rightarrow>
              (case Open e mntdir networkdataPath of
                 Inl err2 \<Rightarrow>
                   (parseFullMetadata (OsFile (Some f)) (OsFile None),
                    evs0 @ [EvTempDir [] ''configdrive''] @ evs1 @
                    [EvOpen mntdir metadataPath, EvOpen mntdir networkdataPath,
                     EvClose mntdir metadataPath, EvUnmount mntdir, EvRemove mntdir])
               | Inr s \<Rightarrow>
                   (parseFullMetadata (OsFile (Some f)) (OsFile (Some s)),
                    evs0 @ [EvTempDir [] ''configdrive''] @ evs1 @
                    [EvOpen mntdir metadataPath, EvOpen mntdir networkdataPath,
                     EvClose mntdir networkdataPath, EvClose mntdir metadataPath,
                     EvUnmount mntdir, EvRemove mntdir])))"
      "\<forall>dev dir fstype opts. EvMount dev dir fstype opts \<notin> set evs0"
proof -
  define dev0 where "dev0 = ''/dev/disk/by-label/'' @ configDriveLabel"
  define args where "args = [''-l'', ''-t'', ''LABEL='' @ configDriveLabel, ''-o'', ''device'']"
  define loc where "loc =
            (if IsNotExist (Stat e dev0)
             then (case CombinedOutput e ''blkid'' args of
                     Inl err \<Rightarrow> Inl err
                   | Inr out \<Rightarrow> Inr (TrimSpace e out),
                   [EvStat dev0, EvCommand ''blkid'' args])
             else (Inr dev0, [EvStat dev0]))"
  obtain located evs0 where loc_eq: "loc = (located, evs0)" by (cases loc)
  have evs0: "\<forall>dev dir fstype opts. EvMount dev dir fstype opts \<notin> set evs0"
    using loc_eq by (auto simp: loc_def split: if_splits)
  have unf: "getMetadataFromConfigDrive e =
     (case located of
           Inl err \<Rightarrow> (Return (None, None, Some err), evs0)
         | Inr dev \<Rightarrow>
             (case TempDir e [] ''configdrive'' of
                Inl err \<Rightarrow> (Return (None, None, Some err), evs0 @ [EvTempDir [] ''configdrive''])
              | Inr mntdir \<Rightarrow>
                  (let defer1 = [EvRemove mntdir];
                       err1 = Mount e dev mntdir ''iso9660'' [''ro''];
                       (err, evs1) =
                         (if err1 \<noteq> None
                          then (Mount e dev mntdir ''vfat'' [''ro''],
                                [EvMount dev mntdir ''iso9660'' [''ro''],
                                 EvMount dev mntdir ''vfat'' [''ro'']])
                          else (err1, [EvMount dev mntdir ''iso9660'' [''ro'']]));
                       evs = evs0 @ [EvTempDir [] ''configdrive''] @ evs1
                   in case err of
                        Some er \<Rightarrow> (Return (None, None, Some er), evs @ defer1)
                      | None \<Rightarrow>
                          (let defer2 = EvUnmount mntdir # defer1
                           in case Open e mntdir metadataPath of
                                Inl er \<Rightarrow>
                                  (Return (None, None, Some er),
                                   evs @ [EvOpen mntdir metadataPath] @ defer2)
                              | Inr f \<Rightarrow>
                                  (let defer3 = EvClose mntdir metadataPath # defer2;
                                       (f2, defer4) =
                                         (case Open e mntdir networkdataPath of
                                            Inl err2 \<Rightarrow> (None, defer3)
                                          | Inr s \<Rightarrow>
                                              (Some s, EvClose mntdir networkdataPath # defer3))
                                   in (parseFullMetadata (OsFile (Some f)) (OsFile f2),
                                       evs @ [EvOpen mntdir metadataPath,
                                              EvOpen mntdir networkdataPath] @ defer4))))))"
    unfolding getMetadataFromConfigDrive_def
    using loc_eq [unfolded loc_def dev0_def args_def]
    by (simp only: Let_def split_conv)
  show thesis
  proof (cases located)
    case (Inl err)
    then show thesis using NoDevice [of err evs0] unf evs0 by simp
  next
    case (Inr dev)
    note dev = this
    show thesis
    proof (cases "TempDir e [] ''configdrive''")
      case (Inl err)
      then show thesis using NoTempDir [of err evs0] unf dev evs0 by simp
    next
      case (Inr mntdir)
      note mntdir = this
      show thesis
      proof (cases "Mount e dev mntdir ''iso9660'' [''ro'']")
        case None
        have "getMetadataFromConfigDrive e =
         (case Open e mntdir metadataPath of
            Inl er \<Rightarrow>
              (Return (None, None, Some er),
               evs0 @ [EvTempDir [] ''configdrive''] @ [EvMount dev mntdir ''iso9660'' [''ro'']] @
               [EvOpen mntdir metadataPath, EvUnmount mntdir, EvRemove mntdir])
          | Inr f \<Rightarrow>
              (case Open e mntdir networkdataPath of
                 Inl err2 \<Rightarrow>
                   (parseFullMetadata (OsFile (Some f)) (OsFile None),
                    evs0 @ [EvTempDir [] ''configdrive''] @ [EvMount dev mntdir ''iso9660'' [''ro'']] @
                    [EvOpen mntdir metadataPath, EvOpen mntdir networkdataPath,
                     EvClose mntdir metadataPath, EvUnmount mntdir, EvRemove mntdir])
               | Inr s \<Rightarrow>
                   (parseFullMetadata (OsFile (Some f)) (OsFile (Some s)),
                    evs0 @ [EvTempDir [] ''configdrive''] @ [EvMount dev mntdir ''iso9660'' [''ro'']] @
                    [EvOpen mntdir metadataPath, EvOpen mntdir networkdataPath,
                     EvClose mntdir networkdataPath, EvClose mntdir metadataPath,
                     EvUnmount mntdir, EvRemove mntdir])))"
          unfolding unf using dev mntdir None by (simp add: Let_def split: sum.splits)
        then show thesis using Mounted [of "[EvMount dev mntdir ''iso9660'' [''ro'']]" dev mntdir evs0] evs0
          by blast
      next
        case (Some err1)
        note iso = this
        show thesis
        proof (cases "Mount e dev mntdir ''vfat'' [''ro'']")
          case (Some err)
          have "getMetadataFromConfigDrive e =
            (Return (None, None, Some err),
             evs0 @ [EvTempDir [] ''configdrive'', EvMount dev mntdir ''iso9660'' [''ro''],
                  EvMount dev mntdir ''vfat'' [''ro''], EvRemove mntdir])"
            unfolding unf using dev mntdir iso Some by (simp add: Let_def)
          then show thesis using MountFailed [OF iso Some] evs0 by blast
        next
          case None
          have "getMetadataFromConfigDrive e =
         (case Open e mntdir metadataPath of
            Inl er \<Rightarrow>
              (Return (None, None, Some er),
               evs0 @ [EvTempDir [] ''configdrive''] @
               [EvMount dev mntdir ''iso9660'' [''ro''], EvMount dev mntdir ''vfat'' [''ro'']] @
               [EvOpen mntdir metadataPath, EvUnmount mntdir, EvRemove mntdir])
          | Inr f \<Rightarrow>
              (case Open e mntdir networkdataPath of
                 Inl err2 \<Rightarrow>
                   (parseFullMetadata (OsFile (Some f)) (OsFile None),
                    evs0 @ [EvTempDir [] ''configdrive''] @
                    [EvMount dev mntdir ''iso9660'' [''ro''], EvMount dev mntdir ''vfat'' [''ro'']] @
                    [EvOpen mntdir metadataPath, EvOpen mntdir networkdataPath,
                     EvClose mntdir metadataPath, EvUnmount mntdir, EvRemove mntdir])
               | Inr s \<Rightarrow>
                   (parseFullMetadata (OsFile (Some f)) (OsFile (Some s)),
                    evs0 @ [EvTempDir [] ''configdrive''] @
                    [EvMount dev mntdir ''iso9660'' [''ro''], EvMount dev mntdir ''vfat'' [''ro'']] @
                    [EvOpen mntdir metadataPath, EvOpen mntdir networkdataPath,
                     EvClose mntdir networkdataPath, EvClose mntdir metadataPath,
                     EvUnmount mntdir, EvRemove mntdir])))"
            unfolding unf using dev mntdir iso None by (simp add: Let_def split: sum.splits)
          then show thesis
            using Mounted [of "[EvMount dev mntdir ''iso9660'' [''ro''], EvMount dev mntdir ''vfat'' [''ro'']]"
                dev mntdir evs0] evs0
            by blast
        qed
      qed
    qed
  qed
qed

lemma getMetadataFromConfigDrive_no_error:
  "getMetadataFromConfigDrive e = (Return (md, nd, None), evs) \<Longrightarrow>
   \<exists>m. md = Some m \<and> Uuid m \<noteq> []"
  unfolding getMetadataFromConfigDrive_def Let_def
  by (auto split: sum.splits option.splits if_splits prod.splits
      dest: parseFullMetadata_no_error)

lemma getMetadataFromConfigDrive_first_call:
  "\<exists>evs. snd (getMetadataFromConfigDrive e) = EvStat (''/dev/disk/by-label/'' @ configDriveLabel) # evs"
  unfolding getMetadataFromConfigDrive_def Let_def
  by (simp split: sum.splits option.splits prod.splits)

subsection \<open>The metadata service\<close>

lemma getMetadataFromMetadataService_no_error:
  "getMetadataFromMetadataService e = (Return (md, nd, None), evs) \<Longrightarrow>
   \<exists>m. md = Some m \<and> Uuid m \<noteq> []"
  unfolding getMetadataFromMetadataService_def
  by (auto split: sum.splits option.splits if_splits prod.splits
      dest: parseFullMetadata_no_error)

lemma getMetadataFromMetadataService_first_call:
  "\<exists>evs. snd (getMetadataFromMetadataService e) = EvGet (metadataUrl @ metadataPath) # evs"
  by (auto simp: getMetadataFromMetadataService_def get_def split: sum.splits option.splits prod.splits)

lemma getMetadataFromMetadataService_nil_reader:
  assumes "fst (get e (metadataUrl @ networkdataPath)) = (ndBody, Some err)"
  shows "fst (getMetadataFromMetadataService e) \<noteq> Return (md, nd, None)"
proof -
  have nil: "ndBody = NilInterface"
    using assms by (auto simp: get_def split: sum.splits if_splits)
  obtain mdBody oerr evs1 where g1: "get e (metadataUrl @ metadataPath) = ((mdBody, oerr), evs1)"
    by (cases "get e (metadataUrl @ metadataPath)") auto
  obtain evs2 where g2: "get e (metadataUrl @ networkdataPath) = ((NilInterface, Some err), evs2)"
    using assms nil by (cases "get e (metadataUrl @ networkdataPath)") auto
  show ?thesis
  proof (cases oerr)
    case (Some err1)
    then show ?thesis using g1 by (simp add: getMetadataFromMetadataService_def)
  next
    case None
    then have "fst (getMetadataFromMetadataService e) = parseFullMetadata mdBody NilInterface"
      using g1 g2 by (simp add: getMetadataFromMetadataService_def)
    then show ?thesis
      by (auto simp: parseFullMetadata_def parseNetworkdata_nil_interface
          split: go.splits option.splits prod.splits)
  qed
qed

text \<open>A body that answers a read after \<open>Close\<close> with an error, as those of net/http do,
  makes the source fail with that error, whatever the second request gives.\<close>

lemma getMetadataFromMetadataService_closed_body:
  assumes "Get e (metadataUrl @ metadataPath) = Inr resp"
    and "StatusCode resp = 200"
    and "after_close (Body resp) = Inl err"
  shows "fst (getMetadataFromMetadataService e) = Return (None, None, Some err)"
proof -
  have "fst (get e (metadataUrl @ metadataPath)) = (RespBody (Close (Body resp)), None)"
    using assms(1,2) by (simp add: get_def)
  moreover have "parseMetadata (RespBody (Close (Body resp))) = Return (None, Some err)"
    using assms(3) by (simp add: parseMetadata_def Close_def)
  ultimately show ?thesis
    by (cases "get e (metadataUrl @ metadataPath)"; cases "get e (metadataUrl @ networkdataPath)")
       (auto simp: getMetadataFromMetadataService_def parseFullMetadata_def)
qed

subsection \<open>The ways through getMetadata\<close>

lemma getMetadata_cached:
  "metadataCache st \<noteq> None \<Longrightarrow>
   getMetadata e st = (Return (metadataCache st, networkdataCache st, None), st)"
  by (auto simp: getMetadata_def)

lemma getMetadata_miss_Panic1:
  "metadataCache st = None \<Longrightarrow> getMetadataFromConfigDrive e = (Panic, evs1) \<Longrightarrow>
   getMetadata e st = (Panic, st\<lparr>trace := trace st @ evs1\<rparr>)"
  by (simp add: getMetadata_def)

lemma getMetadata_miss_drive:
  "metadataCache st = None \<Longrightarrow> getMetadataFromConfigDrive e = (Return (md, nd, None), evs1) \<Longrightarrow>
   getMetadata e st =
     (Return (md, nd, None),
      st\<lparr>metadataCache := md, networkdataCache := nd, trace := trace st @ evs1\<rparr>)"
  by (simp add: getMetadata_def)

lemma getMetadata_miss_Panic2:
  "metadataCache st = None \<Longrightarrow>
   getMetadataFromConfigDrive e = (Return (md1, nd1, Some err1), evs1) \<Longrightarrow>
   getMetadataFromMetadataService e = (Panic, evs2) \<Longrightarrow>
   getMetadata e st = (Panic, st\<lparr>trace := trace st @ evs1 @ evs2\<rparr>)"
  by (simp add: getMetadata_def)

lemma getMetadata_miss_service:
  "metadataCache st = None \<Longrightarrow>
   getMetadataFromConfigDrive e = (Return (md1, nd1, Some err1), evs1) \<Longrightarrow>
   getMetadataFromMetadataService e = (Return (md, nd, None), evs2) \<Longrightarrow>
   getMetadata e st =
     (Return (md, nd, None),
      st\<lparr>metadataCache := md, networkdataCache := nd, trace := trace st @ evs1 @ evs2\<rparr>)"
  by (simp add: getMetadata_def)

lemma getMetadata_miss_error:
  "metadataCache st = None \<Longrightarrow>
   getMetadataFromConfigDrive e = (Return (md1, nd1, Some err1), evs1) \<Longrightarrow>
   getMetadataFromMetadataService e = (Return (md2, nd2, Some err2), evs2) \<Longrightarrow>
   getMetadata e st = (Return (None, None, Some err2), st\<lparr>trace := trace st @ evs1 @ evs2\<rparr>)"
  by (simp add: getMetadata_def)

text \<open>The five ways through a call that finds the cache empty.\<close>

lemma getMetadata_miss_cases:
  assumes "metadataCache st = None"
  obtains
    (Panic1) evs1 where "getMetadataFromConfigDrive e = (Panic, evs1)"
      "getMetadata e st = (Panic, st\<lparr>trace := trace st @ evs1\<rparr>)"
  | (Drive) md nd evs1 where "getMetadataFromConfigDrive e = (Return (md, nd, None), evs1)"
      "getMetadata e st =
         (Return (md, nd, None),
          st\<lparr>metadataCache := md, networkdataCache := nd, trace := trace st @ evs1\<rparr>)"
  | (Panic2) md1 nd1 err1 evs1 evs2 where
      "getMetadataFromConfigDrive e = (Return (md1, nd1, Some err1), evs1)"
      "getMetadataFromMetadataService e = (Panic, evs2)"
      "getMetadata e st = (Panic, st\<lparr>trace := trace st @ evs1 @ evs2\<rparr>)"
  | (Service) md1 nd1 err1 evs1 md nd evs2 where
      "getMetadataFromConfigDrive e = (Return (md1, nd1, Some err1), evs1)"
      "getMetadataFromMetadataService e = (Return (md, nd, None), evs2)"
      "getMetadata e st =
         (Return (md, nd, None),
          st\<lparr>metadataCache := md, networkdataCache := nd, trace := trace st @ evs1 @ evs2\<rparr>)"
  | (Error) md1 nd1 err1 evs1 md2 nd2 err2 evs2 where
      "getMetadataFromConfigDrive e = (Return (md1, nd1, Some err1), evs1)"
      "getMetadataFromMetadataService e = (Return (md2, nd2, Some err2), evs2)"
      "getMetadata e st =
         (Return (None, None, Some err2), st\<lparr>trace := trace st @ evs1 @ evs2\<rparr>)"
proof -
  obtain r1 evs1 where cd: "getMetadataFromConfigDrive e = (r1, evs1)"
    by (cases "getMetadataFromConfigDrive e")
  obtain r2 evs2 where ms: "getMetadataFromMetadataService e = (r2, evs2)"
    by (cases "getMetadataFromMetadataService e")
  show thesis
  proof (cases r1)
    case Panic
    with cd show thesis using Panic1 getMetadata_miss_Panic1 [OF assms] by blast
  next
    case (Return res1)
    obtain md1 nd1 oerr1 where res1: "res1 = (md1, nd1, oerr1)" by (cases res1)
    show thesis
    proof (cases oerr1)
      case None
      with cd Return res1 show thesis using Drive getMetadata_miss_drive [OF assms] by blast
    next
      case (Some err1)
      note cd' = cd [unfolded Return res1 Some]
      show thesis
      proof (cases r2)
        case Panic
        with ms cd' show thesis using Panic2 getMetadata_miss_Panic2 [OF assms] by blast
      next
        case (Return res2)
        obtain md2 nd2 oerr2 where res2: "res2 = (md2, nd2, oerr2)" by (cases res2)
        show thesis
        proof (cases oerr2)
          case None
          with ms Return res2 cd' show thesis
            using Service getMetadata_miss_service [OF assms] by blast
        next
          case (Some err2)
          with ms Return res2 cd' show thesis
            using Error getMetadata_miss_error [OF assms] by blast
        qed
      qed
    qed
  qed
qed

lemma getMetadata_success:
  assumes "getMetadata e st = (Return (md, nd, None), st')"
  shows "metadataCache st' = md \<and> networkdataCache st' = nd \<and> md \<noteq> None"
proof (cases "metadataCache st = None")
  case False
  then show ?thesis using assms by (auto simp: getMetadata_cached)
next
  case True
  then show ?thesis
  proof (cases rule: getMetadata_miss_cases [of st e])
    case (Drive md' nd' evs1)
    with assms getMetadataFromConfigDrive_no_error [of e md' nd' evs1] show ?thesis by auto
  next
    case (Service md1 nd1 err1 evs1 md' nd' evs2)
    with assms getMetadataFromMetadataService_no_error [of e md' nd' evs2] show ?thesis by auto
  qed (use assms in simp_all)
qed

lemma getMetadata_miss_trace:
  assumes "metadataCache st = None"
  shows "trace (snd (getMetadata e st)) =
           trace st @ snd (getMetadataFromConfigDrive e) @
           (case fst (getMetadataFromConfigDrive e) of
              Return (md, nd, Some err) \<Rightarrow> snd (getMetadataFromMetadataService e)
            | _ \<Rightarrow> [])"
  using assms by (cases rule: getMetadata_miss_cases [of st e]) simp_all

lemma getMetadata_cache_ok:
  assumes "\<forall>m. metadataCache st = Some m \<longrightarrow> Uuid m \<noteq> []"
  shows "\<forall>m. metadataCache (snd (getMetadata e st)) = Some m \<longrightarrow> Uuid m \<noteq> []"
proof (cases "metadataCache st = None")
  case False
  then show ?thesis using assms by (simp add: getMetadata_cached)
next
  case True
  then show ?thesis
  proof (cases rule: getMetadata_miss_cases [of st e])
    case (Drive md nd evs1)
    with getMetadataFromConfigDrive_no_error [of e md nd evs1] show ?thesis by auto
  next
    case (Service md1 nd1 err1 evs1 md nd evs2)
    with getMetadataFromMetadataService_no_error [of e md nd evs2] show ?thesis by auto
  qed (use True in simp_all)
qed

lemma calls_append:
  "snd (calls (es @ [e]) st) = snd (getMetadata e (snd (calls es st)))"
  by (induction es arbitrary: st) (simp_all add: case_prod_unfold)

lemma calls_cache_ok:
  "\<forall>m. metadataCache (snd (calls es init)) = Some m \<longrightarrow> Uuid m \<noteq> []"
proof (induction es rule: rev_induct)
  case Nil
  then show ?case by (simp add: init_def)
next
  case (snoc e es)
  have "snd (calls (es @ [e]) init) = snd (getMetadata e (snd (calls es init)))"
    by (rule calls_append)
  moreover have "\<forall>m. metadataCache (snd (getMetadata e (snd (calls es init)))) = Some m \<longrightarrow> Uuid m \<noteq> []"
    using snoc.IH by (rule getMetadata_cache_ok)
  ultimately show ?case by (simp only:)
qed

subsection \<open>The example environments\<close>

lemma parseMetadata_doc_instance:
  "parseMetadata (OsFile (Some (Inr doc_instance))) =
     Return (Some \<lparr>Uuid = ''abc-123'', Name = ''vm1'', AvailabilityZone = ''az1''\<rparr>, None)"
  "parseMetadata (RespBody (Close (Body (ok_response doc_instance)))) =
     Return (Some \<lparr>Uuid = ''abc-123'', Name = ''vm1'', AvailabilityZone = ''az1''\<rparr>, None)"
  by (simp_all add: parseMetadata_def doc_instance_def Decode_Metadata_def decoded_def
      store_struct_def findField_def Metadata_tags_def store_Metadata_def saveError_def
      zero_Metadata_def ok_response_def Close_def)

lemma parseNetworkdata_doc_network:
  "parseNetworkdata (RespBody (Close (Body (ok_response doc_network)))) =
     Return (Some \<lparr>Links = [\<lparr>MAC = [], Type_Link = ''ovs'', Id = ''tap1''\<rparr>],
                   Networks = [\<lparr>NetworkId = ''n1'', IP = [], LinkId = ''tap1'', Link = None,
                                Type_Network = []\<rparr>],
                   Services = []\<rparr>, None)"
  by (simp add: parseNetworkdata_def doc_network_def Decode_Networkdata_def decoded_def
      store_struct_def store_slice_def findField_def toLower_def saveError_def
      Networkdata_tags_def store_Networkdata_def Link_tags_def store_Link_def
      Network_tags_def store_Network_def zero_Networkdata_def zero_Link_def zero_Network_def
      ok_response_def Close_def)

lemma getMetadataFromConfigDrive_env_drive:
  "getMetadataFromConfigDrive env_drive =
     (Return (Some \<lparr>Uuid = ''abc-123'', Name = ''vm1'', AvailabilityZone = ''az1''\<rparr>, None, None),
      [EvStat ''/dev/disk/by-label/config-2'',
       EvTempDir [] ''configdrive'',
       EvMount ''/dev/disk/by-label/config-2'' ''/tmp/configdrive1'' ''iso9660'' [''ro''],
       EvMount ''/dev/disk/by-label/config-2'' ''/tmp/configdrive1'' ''vfat'' [''ro''],
       EvOpen ''/tmp/configdrive1'' metadataPath,
       EvOpen ''/tmp/configdrive1'' networkdataPath,
       EvClose ''/tmp/configdrive1'' metadataPath,
       EvUnmount ''/tmp/configdrive1'',
       EvRemove ''/tmp/configdrive1''])"
  by (simp add: getMetadataFromConfigDrive_def Let_def env_drive_def env_nothing_def IsNotExist_def
      configDriveLabel_def parseFullMetadata_def parseMetadata_doc_instance
      parseNetworkdata_nil_file metadataPath_def networkdataPath_def)

lemma getMetadataFromConfigDrive_no_device:
  "getMetadataFromConfigDrive env_nothing =
     (Return (None, None, Some (Failure ''exit status 2'')),
      [EvStat ''/dev/disk/by-label/config-2'',
       EvCommand ''blkid'' [''-l'', ''-t'', ''LABEL=config-2'', ''-o'', ''device'']])"
  "getMetadataFromConfigDrive env_service =
     (Return (None, None, Some (Failure ''exit status 2'')),
      [EvStat ''/dev/disk/by-label/config-2'',
       EvCommand ''blkid'' [''-l'', ''-t'', ''LABEL=config-2'', ''-o'', ''device'']])"
  "getMetadataFromConfigDrive env_service_404 =
     (Return (None, None, Some (Failure ''exit status 2'')),
      [EvStat ''/dev/disk/by-label/config-2'',
       EvCommand ''blkid'' [''-l'', ''-t'', ''LABEL=config-2'', ''-o'', ''device'']])"
  by (simp_all add: getMetadataFromConfigDrive_def Let_def env_service_def env_service_404_def
      env_nothing_def IsNotExist_def configDriveLabel_def)

lemma getMetadataFromMetadataService_env_nothing:
  "getMetadataFromMetadataService env_nothing =
     (Return (None, None, Some (Failure ''no route to host'')),
      [EvGet (metadataUrl @ metadataPath)])"
  by (simp add: getMetadataFromMetadataService_def get_def env_nothing_def)

lemma get_env_service:
  "get env_service (metadataUrl @ metadataPath) =
     ((RespBody (Close (Body (ok_response doc_instance))), None),
      [EvGet (metadataUrl @ metadataPath), EvBodyClose (metadataUrl @ metadataPath)])"
  "get env_service (metadataUrl @ networkdataPath) =
     ((RespBody (Close (Body (ok_response doc_network))), None),
      [EvGet (metadataUrl @ networkdataPath), EvBodyClose (metadataUrl @ networkdataPath)])"
  by (simp_all add: get_def env_service_def env_nothing_def ok_response_def
      metadataUrl_def metadataPath_def networkdataPath_def)

lemma getMetadataFromMetadataService_env_service:
  "getMetadataFromMetadataService env_service =
     (Return (Some \<lparr>Uuid = ''abc-123'', Name = ''vm1'', AvailabilityZone = ''az1''\<rparr>,
              Some \<lparr>Links = [\<lparr>MAC = [], Type_Link = ''ovs'', Id = ''tap1''\<rparr>],
                   Networks = [\<lparr>NetworkId = ''n1'', IP = [], LinkId = ''tap1'', Link = None,
                                Type_Network = []\<rparr>],
                   Services = []\<rparr>, None),
      [EvGet (metadataUrl @ metadataPath), EvBodyClose (metadataUrl @ metadataPath),
       EvGet (metadataUrl @ networkdataPath), EvBodyClose (metadataUrl @ networkdataPath)])"
  by (simp add: getMetadataFromMetadataService_def get_env_service parseFullMetadata_def
      parseMetadata_doc_instance parseNetworkdata_doc_network)

lemma get_env_service_404:
  "get env_service_404 (metadataUrl @ metadataPath) =
     ((RespBody (Close (Body (ok_response doc_instance))), None),
      [EvGet (metadataUrl @ metadataPath), EvBodyClose (metadataUrl @ metadataPath)])"
  "get env_service_404 (metadataUrl @ networkdataPath) =
     ((NilInterface, Some (StatusError (metadataUrl @ networkdataPath) ''404 Not Found'')),
      [EvGet (metadataUrl @ networkdataPath), EvBodyClose (metadataUrl @ networkdataPath)])"
  by (simp_all add: get_def env_service_404_def env_nothing_def ok_response_def
      metadataUrl_def metadataPath_def networkdataPath_def)

lemma getMetadata_env_drive:
  "getMetadata env_drive init =
     (Return (Some \<lparr>Uuid = ''abc-123'', Name = ''vm1'', AvailabilityZone = ''az1''\<rparr>, None, None),
      \<lparr>metadataCache = Some \<lparr>Uuid = ''abc-123'', Name = ''vm1'', AvailabilityZone = ''az1''\<rparr>,
       networkdataCache = None,
       trace = snd (getMetadataFromConfigDrive env_drive)\<rparr>)"
  using getMetadata_miss_drive [of init env_drive, OF _ getMetadataFromConfigDrive_env_drive]
  by (simp add: init_def getMetadataFromConfigDrive_env_drive)

subsection \<open>The config drive\<close>

text \<open>
  C5. Whenever a mount of the config drive succeeded, \<open>getMetadataFromConfigDrive\<close>
  returns, and the last two calls it makes are \<open>Unmount\<close> of the mount point and \<open>Remove\<close>
  of its directory, after the mount: on every exit, whether the instance file cannot be
  opened, a document cannot be decoded, or all goes well.
\<close>

theorem getMetadataFromConfigDrive_releases_mount:
  assumes "getMetadataFromConfigDrive e = (r, evs)"
    and "EvMount dev mntdir fstype opts \<in> set evs"
    and "Mount e dev mntdir fstype opts = None"
  shows "(\<exists>res. r = Return res) \<and>
         (\<exists>pre. evs = pre @ [EvUnmount mntdir, EvRemove mntdir] \<and>
                 EvMount dev mntdir fstype opts \<in> set pre)"
proof (cases rule: getMetadataFromConfigDrive_paths [of e])
  case (NoDevice err evs0)
  then show ?thesis using assms by auto
next
  case (NoTempDir err evs0)
  then show ?thesis using assms by auto
next
  case (MountFailed dev' mntdir' evs0 err1 err)
  then show ?thesis using assms by auto
next
  case (Mounted dev' mntdir' evs0 evs1)
  note nm = Mounted(3)
  show ?thesis
  proof (cases "Open e mntdir' metadataPath")
    case (Inl er)
    with Mounted assms nm show ?thesis by auto
  next
    case (Inr f)
    note f = this
    show ?thesis
    proof (cases "Open e mntdir' networkdataPath")
      case (Inl err2)
      with Mounted assms nm f parseFullMetadata_OsFile [of "Some f" None] show ?thesis
        by (cases "parseFullMetadata (OsFile (Some f)) (OsFile None)") auto
    next
      case (Inr s)
      with Mounted assms nm f parseFullMetadata_OsFile [of "Some f" "Some s"] show ?thesis
        by (cases "parseFullMetadata (OsFile (Some f)) (OsFile (Some s))") auto
    qed
  qed
qed

theorem getMetadataFromConfigDrive_releases_mount_witness:
  "Mount env_drive ''/dev/disk/by-label/config-2'' ''/tmp/configdrive1'' ''vfat'' [''ro''] = None \<and>
   (\<exists>res. fst (getMetadataFromConfigDrive env_drive) = Return res) \<and>
   (\<exists>pre. snd (getMetadataFromConfigDrive env_drive) =
            pre @ [EvUnmount ''/tmp/configdrive1'', EvRemove ''/tmp/configdrive1''] \<and>
          EvMount ''/dev/disk/by-label/config-2'' ''/tmp/configdrive1'' ''vfat'' [''ro'']
            \<in> set pre)"
proof -
  have m: "Mount env_drive ''/dev/disk/by-label/config-2'' ''/tmp/configdrive1'' ''vfat'' [''ro''] = None"
    by (simp add: env_drive_def env_nothing_def)
  have ev: "EvMount ''/dev/disk/by-label/config-2'' ''/tmp/configdrive1'' ''vfat'' [''ro'']
      \<in> set (snd (getMetadataFromConfigDrive env_drive))"
    by (simp add: getMetadataFromConfigDrive_env_drive)
  from getMetadataFromConfigDrive_releases_mount [OF surjective_pairing ev m] m
  show ?thesis by simp
qed

text \<open>
  C7. When the config drive is mounted, the instance file opens and \<open>parseMetadata\<close>
  accepts it, and \<open>network_data.json\<close> cannot be opened, the result is the instance
  metadata, a nil \<open>*Networkdata\<close> and no error.
\<close>

theorem getMetadataFromConfigDrive_optional_networkdata:
  assumes "getMetadataFromConfigDrive e = (r, evs)"
    and "EvMount dev mntdir fstype opts \<in> set evs"
    and "Mount e dev mntdir fstype opts = None"
    and "Open e mntdir metadataPath = Inr f"
    and "parseMetadata (OsFile (Some f)) = Return (Some m, None)"
    and "Open e mntdir networkdataPath = Inl err2"
  shows "r = Return (Some m, None, None)"
proof (cases rule: getMetadataFromConfigDrive_paths [of e])
  case (NoDevice err evs0)
  then show ?thesis using assms by auto
next
  case (NoTempDir err evs0)
  then show ?thesis using assms by auto
next
  case (MountFailed dev' mntdir' evs0 err1 err)
  then show ?thesis using assms by auto
next
  case (Mounted dev' mntdir' evs0 evs1)
  note nm = Mounted(3)
  have "EvMount dev mntdir fstype opts \<in> set evs1"
    using Mounted(2) assms(1,2) nm
    by (auto split: sum.splits)
  then have "mntdir' = mntdir" using Mounted(1) by auto
  then have "r = parseFullMetadata (OsFile (Some f)) (OsFile None)"
    using Mounted(2) assms(1,4,6) by simp
  then show ?thesis using assms(5)
    by (simp add: parseFullMetadata_def parseNetworkdata_nil_file)
qed

theorem getMetadataFromConfigDrive_optional_networkdata_witness:
  "Mount env_drive ''/dev/disk/by-label/config-2'' ''/tmp/configdrive1'' ''vfat'' [''ro''] = None \<and>
   Open env_drive ''/tmp/configdrive1'' metadataPath = Inr (Inr doc_instance) \<and>
   Open env_drive ''/tmp/configdrive1'' networkdataPath = Inl ErrNotExist \<and>
   fst (getMetadataFromConfigDrive env_drive) =
     Return (Some \<lparr>Uuid = ''abc-123'', Name = ''vm1'', AvailabilityZone = ''az1''\<rparr>, None, None)"
proof -
  have m: "Mount env_drive ''/dev/disk/by-label/config-2'' ''/tmp/configdrive1'' ''vfat'' [''ro''] = None"
    by (simp add: env_drive_def env_nothing_def)
  have ev: "EvMount ''/dev/disk/by-label/config-2'' ''/tmp/configdrive1'' ''vfat'' [''ro'']
      \<in> set (snd (getMetadataFromConfigDrive env_drive))"
    by (simp add: getMetadataFromConfigDrive_env_drive)
  have o1: "Open env_drive ''/tmp/configdrive1'' metadataPath = Inr (Inr doc_instance)"
    by (simp add: env_drive_def env_nothing_def)
  have o2: "Open env_drive ''/tmp/configdrive1'' networkdataPath = Inl ErrNotExist"
    by (simp add: env_drive_def env_nothing_def metadataPath_def networkdataPath_def)
  from getMetadataFromConfigDrive_optional_networkdata
    [OF surjective_pairing ev m o1 parseMetadata_doc_instance(1) o2] m o1 o2
  show ?thesis by simp
qed

subsection \<open>The metadata service without network data\<close>

text \<open>
  C6. The claim is that a failed second request only leaves the topology out. With a
  first answer 200 that holds \<open>{"uuid":"abc-123",...}\<close> and a second answer 404,
  \<open>getMetadataFromMetadataService\<close> does not return: \<open>get\<close> hands back the nil
  \<open>io.Reader\<close>, and \<open>parseNetworkdata\<close> reads from it.
\<close>

theorem getMetadataFromMetadataService_no_networkdata:
  "getMetadataFromMetadataService env_service_404 =
     (Panic,
      [EvGet (metadataUrl @ metadataPath), EvBodyClose (metadataUrl @ metadataPath),
       EvGet (metadataUrl @ networkdataPath), EvBodyClose (metadataUrl @ networkdataPath)])"
  by (simp add: getMetadataFromMetadataService_def get_env_service_404 parseFullMetadata_def
      parseMetadata_doc_instance parseNetworkdata_nil_interface)

subsection \<open>The cache\<close>

text \<open>
  C2. After one call of \<open>getMetadata\<close> that returned \<open>(md, nd, nil)\<close>, the cache holds
  \<open>md\<close> and \<open>nd\<close>, and any number of further calls, whatever the world answers, return
  the same \<open>(md, nd, nil)\<close> and leave the state as it is: the cache, and the list of calls
  made, so neither source runs again. The successful call itself ran each source at most
  once: it added nothing to the list, or the calls of the config drive, or those followed
  by the calls of the metadata service.
\<close>

theorem getMetadata_idempotent:
  assumes "getMetadata e0 st0 = (Return (md, nd, None), st1)"
  shows "metadataCache st1 = md \<and> networkdataCache st1 = nd \<and>
         calls es st1 = (replicate (length es) (Return (md, nd, None)), st1) \<and>
         (trace st1 = trace st0 \<or>
          trace st1 = trace st0 @ snd (getMetadataFromConfigDrive e0) \<or>
          trace st1 = trace st0 @ snd (getMetadataFromConfigDrive e0) @
                      snd (getMetadataFromMetadataService e0))"
proof -
  from getMetadata_success [OF assms]
  have c: "metadataCache st1 = md" "networkdataCache st1 = nd" "md \<noteq> None" by simp_all
  then have hit: "getMetadata e st1 = (Return (md, nd, None), st1)" for e
    using getMetadata_cached [of st1 e] by simp
  have loop: "calls es st1 = (replicate (length es) (Return (md, nd, None)), st1)"
    by (induction es) (simp_all add: hit)
  have tr: "trace st1 = trace st0 \<or>
          trace st1 = trace st0 @ snd (getMetadataFromConfigDrive e0) \<or>
          trace st1 = trace st0 @ snd (getMetadataFromConfigDrive e0) @
                      snd (getMetadataFromMetadataService e0)"
  proof (cases "metadataCache st0 = None")
    case False
    then show ?thesis using assms getMetadata_cached [of st0 e0] by simp
  next
    case True
    have "st1 = snd (getMetadata e0 st0)" using assms by simp
    then show ?thesis using getMetadata_miss_trace [OF True, of e0]
      by (auto split: go.splits option.splits)
  qed
  from c loop tr show ?thesis by simp
qed

theorem getMetadata_idempotent_witness:
  "fst (getMetadata env_drive init) =
     Return (Some \<lparr>Uuid = ''abc-123'', Name = ''vm1'', AvailabilityZone = ''az1''\<rparr>, None, None) \<and>
   calls [env_nothing, env_service, env_drive] (snd (getMetadata env_drive init)) =
     (replicate 3 (Return (Some \<lparr>Uuid = ''abc-123'', Name = ''vm1'', AvailabilityZone = ''az1''\<rparr>,
                           None, None)),
      snd (getMetadata env_drive init))"
  using getMetadata_idempotent [OF getMetadata_env_drive, of "[env_nothing, env_service, env_drive]"]
  by (simp add: getMetadata_env_drive numeral_3_eq_3)

text \<open>
  C3. With an empty cache and a config drive that fails, the calls of \<open>getMetadata\<close> are
  those of the config drive followed by those of the metadata service, which start with
  the request for \<open>meta_data.json\<close>; and if the service returns without error,
  \<open>getMetadata\<close> returns what the service returned.
\<close>

theorem getMetadata_fallback:
  assumes "metadataCache st = None"
    and "getMetadataFromConfigDrive e = (Return (md1, nd1, Some err1), evs1)"
  shows "(\<exists>evs. snd (getMetadataFromMetadataService e) = EvGet (metadataUrl @ metadataPath) # evs \<and>
                trace (snd (getMetadata e st)) =
                  trace st @ evs1 @ EvGet (metadataUrl @ metadataPath) # evs) \<and>
         (\<forall>md nd evs2. getMetadataFromMetadataService e = (Return (md, nd, None), evs2) \<longrightarrow>
                        fst (getMetadata e st) = Return (md, nd, None))"
proof -
  obtain evs where evs:
    "snd (getMetadataFromMetadataService e) = EvGet (metadataUrl @ metadataPath) # evs"
    using getMetadataFromMetadataService_first_call by blast
  have "trace (snd (getMetadata e st)) = trace st @ evs1 @ EvGet (metadataUrl @ metadataPath) # evs"
    using getMetadata_miss_trace [OF assms(1), of e] assms(2) evs by simp
  moreover have "fst (getMetadata e st) = Return (md, nd, None)"
    if "getMetadataFromMetadataService e = (Return (md, nd, None), evs2)" for md nd evs2
    using getMetadata_miss_service [OF assms that] by simp
  ultimately show ?thesis using evs by blast
qed

theorem getMetadata_fallback_witness:
  "metadataCache init = None \<and>
   getMetadataFromConfigDrive env_service =
     (Return (None, None, Some (Failure ''exit status 2'')),
      [EvStat ''/dev/disk/by-label/config-2'',
       EvCommand ''blkid'' [''-l'', ''-t'', ''LABEL=config-2'', ''-o'', ''device'']]) \<and>
   fst (getMetadataFromMetadataService env_service) = fst (getMetadata env_service init) \<and>
   fst (getMetadata env_service init) =
     Return (Some \<lparr>Uuid = ''abc-123'', Name = ''vm1'', AvailabilityZone = ''az1''\<rparr>,
              Some \<lparr>Links = [\<lparr>MAC = [], Type_Link = ''ovs'', Id = ''tap1''\<rparr>],
                   Networks = [\<lparr>NetworkId = ''n1'', IP = [], LinkId = ''tap1'', Link = None,
                                Type_Network = []\<rparr>],
                   Services = []\<rparr>, None)"
proof -
  have c: "metadataCache init = None" by (simp add: init_def)
  from getMetadata_fallback [OF c getMetadataFromConfigDrive_no_device(2)]
  have "fst (getMetadata env_service init) =
     Return (Some \<lparr>Uuid = ''abc-123'', Name = ''vm1'', AvailabilityZone = ''az1''\<rparr>,
              Some \<lparr>Links = [\<lparr>MAC = [], Type_Link = ''ovs'', Id = ''tap1''\<rparr>],
                   Networks = [\<lparr>NetworkId = ''n1'', IP = [], LinkId = ''tap1'', Link = None,
                                Type_Network = []\<rparr>],
                   Services = []\<rparr>, None)"
    using getMetadataFromMetadataService_env_service by blast
  then show ?thesis
    using c getMetadataFromConfigDrive_no_device(2) getMetadataFromMetadataService_env_service
    by simp
qed

text \<open>
  C4. With an empty cache, when both sources return an error, \<open>getMetadata\<close> returns
  \<open>(nil, nil, err)\<close> with the error of the metadata service, and the state differs only in
  the list of calls: the cache is as before. The next call starts with the \<open>Stat\<close> of the
  config drive again and, if the config drive fails again, goes on to the request to the
  metadata service.
\<close>

theorem getMetadata_both_fail:
  assumes "metadataCache st = None"
    and "getMetadataFromConfigDrive e = (Return (md1, nd1, Some err1), evs1)"
    and "getMetadataFromMetadataService e = (Return (md2, nd2, Some err2), evs2)"
  shows "getMetadata e st =
           (Return (None, None, Some err2), st\<lparr>trace := trace st @ evs1 @ evs2\<rparr>) \<and>
         (\<forall>e'. \<exists>evs. trace (snd (getMetadata e' (st\<lparr>trace := trace st @ evs1 @ evs2\<rparr>))) =
                  (trace st @ evs1 @ evs2) @
                  EvStat (''/dev/disk/by-label/'' @ configDriveLabel) # evs) \<and>
         (\<forall>e' md nd err evs. getMetadataFromConfigDrive e' = (Return (md, nd, Some err), evs) \<longrightarrow>
            (\<exists>evs'. trace (snd (getMetadata e' (st\<lparr>trace := trace st @ evs1 @ evs2\<rparr>))) =
                      (trace st @ evs1 @ evs2) @ evs @
                      EvGet (metadataUrl @ metadataPath) # evs'))"
proof -
  let ?st = "st\<lparr>trace := trace st @ evs1 @ evs2\<rparr>"
  have miss: "metadataCache ?st = None" using assms(1) by simp
  have 1: "getMetadata e st = (Return (None, None, Some err2), ?st)"
    using assms by (rule getMetadata_miss_error)
  have 2: "\<exists>evs. trace (snd (getMetadata e' ?st)) =
             (trace st @ evs1 @ evs2) @ EvStat (''/dev/disk/by-label/'' @ configDriveLabel) # evs"
    for e'
  proof -
    obtain evs where "snd (getMetadataFromConfigDrive e') =
        EvStat (''/dev/disk/by-label/'' @ configDriveLabel) # evs"
      using getMetadataFromConfigDrive_first_call by blast
    then show ?thesis using getMetadata_miss_trace [OF miss, of e'] by simp
  qed
  have 3: "\<exists>evs'. trace (snd (getMetadata e' ?st)) =
             (trace st @ evs1 @ evs2) @ evs @ EvGet (metadataUrl @ metadataPath) # evs'"
    if "getMetadataFromConfigDrive e' = (Return (md, nd, Some err), evs)" for e' md nd err evs
  proof -
    obtain evs' where "snd (getMetadataFromMetadataService e') =
        EvGet (metadataUrl @ metadataPath) # evs'"
      using getMetadataFromMetadataService_first_call by blast
    then show ?thesis using getMetadata_miss_trace [OF miss, of e'] that by simp
  qed
  from 1 2 3 show ?thesis by blast
qed

theorem getMetadata_both_fail_witness:
  "getMetadata env_nothing init =
     (Return (None, None, Some (Failure ''no route to host'')),
      init\<lparr>trace :=
             [EvStat ''/dev/disk/by-label/config-2'',
              EvCommand ''blkid'' [''-l'', ''-t'', ''LABEL=config-2'', ''-o'', ''device''],
              EvGet (metadataUrl @ metadataPath)]\<rparr>) \<and>
   (\<exists>evs'. trace (snd (getMetadata env_nothing (snd (getMetadata env_nothing init)))) =
      [EvStat ''/dev/disk/by-label/config-2'',
       EvCommand ''blkid'' [''-l'', ''-t'', ''LABEL=config-2'', ''-o'', ''device''],
       EvGet (metadataUrl @ metadataPath)] @
      [EvStat ''/dev/disk/by-label/config-2'',
       EvCommand ''blkid'' [''-l'', ''-t'', ''LABEL=config-2'', ''-o'', ''device'']] @
      EvGet (metadataUrl @ metadataPath) # evs')"
proof -
  have c: "metadataCache init = None" by (simp add: init_def)
  note bf = getMetadata_both_fail [OF c getMetadataFromConfigDrive_no_device(1)
      getMetadataFromMetadataService_env_nothing]
  from bf have 1: "getMetadata env_nothing init =
     (Return (None, None, Some (Failure ''no route to host'')),
      init\<lparr>trace :=
             [EvStat ''/dev/disk/by-label/config-2'',
              EvCommand ''blkid'' [''-l'', ''-t'', ''LABEL=config-2'', ''-o'', ''device''],
              EvGet (metadataUrl @ metadataPath)]\<rparr>)"
    by (simp add: init_def)
  from bf getMetadataFromConfigDrive_no_device(1)
  have "\<exists>evs'. trace (snd (getMetadata env_nothing
            (init\<lparr>trace := trace init @
              [EvStat ''/dev/disk/by-label/config-2'',
               EvCommand ''blkid'' [''-l'', ''-t'', ''LABEL=config-2'', ''-o'', ''device'']] @
              [EvGet (metadataUrl @ metadataPath)]\<rparr>))) =
      (trace init @ [EvStat ''/dev/disk/by-label/config-2'',
               EvCommand ''blkid'' [''-l'', ''-t'', ''LABEL=config-2'', ''-o'', ''device'']] @
              [EvGet (metadataUrl @ metadataPath)]) @
      [EvStat ''/dev/disk/by-label/config-2'',
       EvCommand ''blkid'' [''-l'', ''-t'', ''LABEL=config-2'', ''-o'', ''device'']] @
      EvGet (metadataUrl @ metadataPath) # evs'"
    by blast
  with 1 show ?thesis by (simp add: init_def)
qed

text \<open>
  C10. In every state that calls of \<open>getMetadata\<close> reach from the initial one, a cached
  \<open>*Metadata\<close> has a non-empty \<open>Uuid\<close>; and whenever \<open>getMetadata\<close> returns without
  error there, the \<open>*Metadata\<close> it returns is not nil and has a non-empty \<open>Uuid\<close>.
\<close>

theorem getMetadata_uuid_nonempty:
  "(\<forall>m. metadataCache (snd (calls es init)) = Some m \<longrightarrow> Uuid m \<noteq> []) \<and>
   (\<forall>e md nd st'. getMetadata e (snd (calls es init)) = (Return (md, nd, None), st') \<longrightarrow>
      (\<exists>m. md = Some m \<and> Uuid m \<noteq> []))"
proof -
  have "\<exists>m. md = Some m \<and> Uuid m \<noteq> []"
    if "getMetadata e (snd (calls es init)) = (Return (md, nd, None), st')" for e md nd st'
  proof -
    from getMetadata_success [OF that] obtain m where m: "md = Some m" "metadataCache st' = Some m"
      by auto
    have "st' = snd (calls (es @ [e]) init)" using that by (simp add: calls_append)
    with m calls_cache_ok [of "es @ [e]"] show ?thesis by simp
  qed
  with calls_cache_ok show ?thesis by blast
qed

theorem getMetadata_uuid_nonempty_witness:
  "getMetadata env_service (snd (calls [env_nothing, env_drive] init)) =
     (Return (Some \<lparr>Uuid = ''abc-123'', Name = ''vm1'', AvailabilityZone = ''az1''\<rparr>, None, None),
      snd (calls [env_nothing, env_drive] init)) \<and>
   (\<exists>m. Some \<lparr>Uuid = ''abc-123'', Name = ''vm1'', AvailabilityZone = ''az1''\<rparr> = Some m \<and>
        Uuid m \<noteq> [])"
proof -
  have c: "metadataCache init = None" by (simp add: init_def)
  note bf = getMetadata_miss_error [OF c getMetadataFromConfigDrive_no_device(1)
      getMetadataFromMetadataService_env_nothing]
  have d: "getMetadata env_drive (snd (getMetadata env_nothing init)) =
     (Return (Some \<lparr>Uuid = ''abc-123'', Name = ''vm1'', AvailabilityZone = ''az1''\<rparr>, None, None),
      snd (getMetadata env_drive (snd (getMetadata env_nothing init))))"
    using getMetadata_miss_drive [of "snd (getMetadata env_nothing init)" env_drive,
        OF _ getMetadataFromConfigDrive_env_drive]
    by (simp add: bf c)
  have s: "snd (calls [env_nothing, env_drive] init) =
           snd (getMetadata env_drive (snd (getMetadata env_nothing init)))"
    by (simp add: case_prod_unfold)
  from getMetadata_success [of env_drive "snd (getMetadata env_nothing init)"] d s
  have hit: "metadataCache (snd (calls [env_nothing, env_drive] init)) =
             Some \<lparr>Uuid = ''abc-123'', Name = ''vm1'', AvailabilityZone = ''az1''\<rparr>"
       "networkdataCache (snd (calls [env_nothing, env_drive] init)) = None"
    by metis+
  have g: "getMetadata env_service (snd (calls [env_nothing, env_drive] init)) =
     (Return (Some \<lparr>Uuid = ''abc-123'', Name = ''vm1'', AvailabilityZone = ''az1''\<rparr>, None, None),
      snd (calls [env_nothing, env_drive] init))"
    using getMetadata_cached [of "snd (calls [env_nothing, env_drive] init)" env_service] hit
    by simp
  with getMetadata_uuid_nonempty [of "[env_nothing, env_drive]"] show ?thesis by blast
qed

end
